theory Spec2Isabelle
  imports Main "HOL-Library.Sublist"
begin

section \<open>Python values used by \<open>server.py\<close>\<close>

text \<open>
  A Python \<open>str\<close> is a sequence of Unicode code points; \<open>len\<close> and slicing count code
  points.  A string is therefore modelled as the list of its code points, and an ASCII
  literal is written \<open>py ''...''\<close>.  Code points beyond ASCII are written as numbers
  (\<open>0xF3\<close> is the letter o with acute accent, and so on).
\<close>

type_synonym pystr = "nat list"

definition py :: "string \<Rightarrow> pystr" where
  "py s = map of_char s"

abbreviation newline :: nat where
  "newline \<equiv> 10"

text \<open>\<open>str.isspace\<close> of one code point: the white space that \<open>str.strip()\<close> removes.\<close>

definition isspace :: "nat \<Rightarrow> bool" where
  "isspace c \<longleftrightarrow>
     (0x09 \<le> c \<and> c \<le> 0x0D) \<or> (0x1C \<le> c \<and> c \<le> 0x20) \<or> c = 0x85 \<or> c = 0xA0 \<or>
     c = 0x1680 \<or> (0x2000 \<le> c \<and> c \<le> 0x200A) \<or> c = 0x2028 \<or> c = 0x2029 \<or>
     c = 0x202F \<or> c = 0x205F \<or> c = 0x3000"

definition strip :: "pystr \<Rightarrow> pystr" where
  "strip s = rev (dropWhile isspace (rev (dropWhile isspace s)))"

text \<open>\<open>s.split("\n")[0]\<close>: the text before the first line feed, all of \<open>s\<close> if it has none.\<close>

definition first_line :: "pystr \<Rightarrow> pystr" where
  "first_line s = takeWhile (\<lambda>c. c \<noteq> newline) s"

text \<open>\<open>str(n)\<close> for a non-negative integer: its decimal digits.\<close>

fun str_nat :: "nat \<Rightarrow> pystr" where
  "str_nat n = (if n < 10 then [48 + n] else str_nat (n div 10) @ [48 + n mod 10])"

declare str_nat.simps [simp del]

text \<open>\<open>f"{v}"\<close> for a value that is a string or \<open>None\<close>.\<close>

definition format_opt :: "pystr option \<Rightarrow> pystr" where
  "format_opt v = (case v of None \<Rightarrow> py ''None'' | Some s \<Rightarrow> s)"

datatype py_error = IndexError


section \<open>Strings in a JSON document\<close>

text \<open>
  \<open>users.json\<close> is written by \<open>json.dump\<close> with its default \<open>ensure_ascii\<close> and read
  by \<open>json.load\<close>.  A string of the document is modelled as the sequence of its
  characters with every escape sequence read on its own: a \<open>\uXXXX\<close> escape is its
  16-bit number.  Writing turns a code point from \<open>0x10000\<close> to \<open>0x10FFFF\<close> into two
  escapes, a high and a low surrogate, and leaves every other character its own number
  (as itself or as one escape).  Numbers above \<open>0x10FFFF\<close> are not code points; the
  model leaves them alone.  A surrogate in the document is always an escape, since a
  file read as UTF-8 has no surrogate character.
\<close>

type_synonym json_text = "nat list"

definition is_high_surrogate :: "nat \<Rightarrow> bool" where
  "is_high_surrogate c \<longleftrightarrow> 0xD800 \<le> c \<and> c \<le> 0xDBFF"

definition is_low_surrogate :: "nat \<Rightarrow> bool" where
  "is_low_surrogate c \<longleftrightarrow> 0xDC00 \<le> c \<and> c \<le> 0xDFFF"

definition json_escape_char :: "nat \<Rightarrow> json_text" where
  "json_escape_char c =
     (if 0x10000 \<le> c \<and> c \<le> 0x10FFFF
      then [0xD800 + ((c - 0x10000) div 0x400) mod 0x400, 0xDC00 + (c - 0x10000) mod 0x400]
      else [c])"

definition json_dumps_str :: "pystr \<Rightarrow> json_text" where
  "json_dumps_str s = concat (map json_escape_char s)"

text \<open>
  Reading: a high surrogate directly followed by a low surrogate is one code point;
  everything else, a lone surrogate too, is read as it stands.
\<close>

fun json_loads_str :: "json_text \<Rightarrow> pystr" where
  "json_loads_str (uni # uni2 # rest) =
     (if is_high_surrogate uni \<and> is_low_surrogate uni2
      then (0x10000 + ((uni - 0xD800) * 0x400 + (uni2 - 0xDC00))) # json_loads_str rest
      else uni # json_loads_str (uni2 # rest))"
| "json_loads_str [uni] = [uni]"
| "json_loads_str [] = []"


section \<open>Data model\<close>

text \<open>
  A message is a dict with the keys \<open>role\<close> and \<open>content\<close>; a conversation is a dict with
  the key \<open>messages\<close>; a user record has \<open>username\<close>, \<open>password_hash\<close>, \<open>role\<close> and
  \<open>conversations\<close>.  These are the shapes the server itself writes.
\<close>

datatype turn = Turn (role: pystr) (content: pystr)

record conversation =
  messages :: "turn list"

record user =
  username :: pystr
  password_hash :: pystr
  user_role :: pystr
  conversations :: "conversation list"

text \<open>
  The Flask session of one client.  \<open>current_conversation\<close> is only ever assigned \<open>None\<close>
  (login), a validated index (select), or a list length (create, chat), so it is an
  optional natural number.
\<close>

record session_data =
  session_username :: "pystr option"
  session_role :: "pystr option"
  current_conversation :: "nat option"

text \<open>
  The state the handlers read and write: the document in \<open>users.json\<close>, the
  process-wide list \<open>conversation_history\<close>, and the session of the client making the
  request.  The document has the shape of the user records; its strings are strings of
  the document (\<open>json_text\<close>), not Python strings.
\<close>

record state =
  users_file :: "user list"
  conversation_history :: "turn list"
  session :: session_data

datatype body =
    Json_error pystr
  | Json_message pystr
  | Json_messages "turn list"
  | Json_id nat
  | Json_conversations "(nat \<times> pystr) list"
  | Json_status pystr
  | Unhandled py_error

type_synonym response = "body \<times> nat"


section \<open>User store\<close>

text \<open>
  \<open>json.dump\<close> and \<open>json.load\<close> on the records: every string is written, or read.
  A file that is missing or cannot be parsed reads as the empty list, which is the
  document \<open>[]\<close>.
\<close>

definition json_dump_turn :: "turn \<Rightarrow> turn" where
  "json_dump_turn t = Turn (json_dumps_str (role t)) (json_dumps_str (content t))"

definition json_dump_conversation :: "conversation \<Rightarrow> conversation" where
  "json_dump_conversation c = \<lparr>messages = map json_dump_turn (messages c)\<rparr>"

definition json_dump_user :: "user \<Rightarrow> user" where
  "json_dump_user u =
     \<lparr>username = json_dumps_str (username u),
      password_hash = json_dumps_str (password_hash u),
      user_role = json_dumps_str (user_role u),
      conversations = map json_dump_conversation (conversations u)\<rparr>"

definition json_load_turn :: "turn \<Rightarrow> turn" where
  "json_load_turn t = Turn (json_loads_str (role t)) (json_loads_str (content t))"

definition json_load_conversation :: "conversation \<Rightarrow> conversation" where
  "json_load_conversation c = \<lparr>messages = map json_load_turn (messages c)\<rparr>"

definition json_load_user :: "user \<Rightarrow> user" where
  "json_load_user u =
     \<lparr>username = json_loads_str (username u),
      password_hash = json_loads_str (password_hash u),
      user_role = json_loads_str (user_role u),
      conversations = map json_load_conversation (conversations u)\<rparr>"

definition load_users :: "state \<Rightarrow> user list" where
  "load_users st = map json_load_user (users_file st)"

definition save_users :: "user list \<Rightarrow> state \<Rightarrow> state" where
  "save_users users st = st\<lparr>users_file := map json_dump_user users\<rparr>"

fun find_user :: "user list \<Rightarrow> pystr \<Rightarrow> user option" where
  "find_user [] n = None"
| "find_user (u # us) n = (if username u = n then Some u else find_user us n)"

definition get_user :: "state \<Rightarrow> pystr \<Rightarrow> user option" where
  "get_user st n = find_user (load_users st) n"

text \<open>The loop of \<open>update_user\<close>: replace the first record of that name, else append.\<close>

fun replace_user :: "user \<Rightarrow> user list \<Rightarrow> user list" where
  "replace_user updated_user [] = [updated_user]"
| "replace_user updated_user (u # us) =
     (if username u = username updated_user then updated_user # us
      else u # replace_user updated_user us)"

definition update_user :: "user \<Rightarrow> state \<Rightarrow> state" where
  "update_user updated_user st = save_users (replace_user updated_user (load_users st)) st"


section \<open>Conversation management routes\<close>

text \<open>
  The first lines of \<open>api_conversations\<close>, \<open>api_get_conversation\<close> and \<open>api_new_chat\<close>:
  401 without a user name in the session, 404 when the store has no such user.
\<close>

definition require_user :: "state \<Rightarrow> response + user" where
  "require_user st =
     (case session_username (session st) of
        None \<Rightarrow> Inl (Json_error (py ''No autenticado''), 401)
      | Some n \<Rightarrow>
          (if n = [] then Inl (Json_error (py ''No autenticado''), 401)
           else case get_user st n of
                  None \<Rightarrow> Inl (Json_error (py ''Usuario no encontrado''), 404)
                | Some u \<Rightarrow> Inr u))"

text \<open>The inner loop of \<open>api_conversations\<close>: the title taken from the first user message.\<close>

definition default_title :: pystr where
  "default_title = py ''Nueva conversaci'' @ [0xF3] @ py ''n''"

definition position_title :: "nat \<Rightarrow> pystr" where
  "position_title idx = py ''Conversaci'' @ [0xF3] @ py ''n '' @ str_nat (idx + 1)"

fun conversation_title :: "turn list \<Rightarrow> pystr" where
  "conversation_title [] = default_title"
| "conversation_title (msg # msgs) =
     (if role msg = py ''user'' then take 50 (first_line (content msg))
      else conversation_title msgs)"

definition summary :: "nat \<times> conversation \<Rightarrow> nat \<times> pystr" where
  "summary p =
     (case p of (idx, convo) \<Rightarrow>
        (let title = conversation_title (messages convo)
         in (idx, if title \<noteq> [] then title else position_title idx)))"

definition api_conversations :: "state \<Rightarrow> response" where
  "api_conversations st =
     (case require_user st of
        Inl err \<Rightarrow> err
      | Inr u \<Rightarrow> (Json_conversations (map summary (enumerate 0 (conversations u))), 200))"

definition invalid_index_text :: pystr where
  "invalid_index_text =
     [0xCD] @ py ''ndice de conversaci'' @ [0xF3] @ py ''n inv'' @ [0xE1] @ py ''lido''"

definition api_get_conversation :: "int \<Rightarrow> state \<Rightarrow> response \<times> state" where
  "api_get_conversation index st =
     (case require_user st of
        Inl err \<Rightarrow> (err, st)
      | Inr u \<Rightarrow>
          (if index < 0 \<or> index \<ge> int (length (conversations u))
           then ((Json_error invalid_index_text, 404), st)
           else
             (let msgs = messages (conversations u ! nat index)
              in ((Json_messages msgs, 200),
                  st\<lparr>conversation_history := msgs,
                     session := (session st)\<lparr>current_conversation := Some (nat index)\<rparr>\<rparr>))))"

definition api_new_chat :: "state \<Rightarrow> response \<times> state" where
  "api_new_chat st =
     (case require_user st of
        Inl err \<Rightarrow> (err, st)
      | Inr u \<Rightarrow>
          (let convs = conversations u @ [\<lparr>messages = []\<rparr>];
               new_index = length convs - 1;
               st1 = update_user (u\<lparr>conversations := convs\<rparr>) st
           in ((Json_id new_index, 200),
               st1\<lparr>conversation_history := [],
                   session := (session st1)\<lparr>current_conversation := Some new_index\<rparr>\<rparr>)))"

definition reset_history :: "state \<Rightarrow> response \<times> state" where
  "reset_history st = ((Json_status (py ''reset''), 200), st\<lparr>conversation_history := []\<rparr>)"


section \<open>The chat route\<close>

text \<open>
  The JSON body of a chat request: \<open>message\<close> (absent reads as \<open>""\<close>), \<open>attachments\<close>
  (absent or \<open>null\<close> reads as the empty list) and \<open>model\<close> (absent reads as the
  configured default).  Of an attachment only \<open>name\<close> is read.  A body of another shape
  makes the handler raise before it reads or writes any state, and a failing write of
  \<open>users.json\<close> is an error of the file system: neither is part of the model.
\<close>

record attachment =
  name :: "pystr option"
  data :: "pystr option"

record chat_request =
  message :: "pystr option"
  attachments :: "attachment list"
  model :: "pystr option"

record payload =
  payload_model :: pystr
  payload_messages :: "turn list"
  payload_stream :: bool

text \<open>
  The completion service is outside the program.  Each \<open>try\<close> block either raises, with
  the text \<open>str(e)\<close> of the exception, or gets a body.  From the body of the primary
  endpoint the code reads \<open>choices[0].message.content\<close>; from the body of the legacy
  endpoint it reads \<open>message\<close> and, failing that, \<open>choices[0].message.content\<close>.
\<close>

datatype 'a attempt = Raised pystr | Returned 'a

record legacy_body =
  legacy_message :: "pystr option"
  legacy_choice_content :: "pystr option"

record env =
  OLLAMA_MODEL :: pystr
  post_chat_completions :: "payload \<Rightarrow> pystr attempt"
  post_api_chat :: "payload \<Rightarrow> legacy_body attempt"

definition system_prompt :: pystr where
  "system_prompt =
     py ''Eres un asistente servicial. Responde siempre en el idioma que '' @
     py ''utilice el usuario y no incluyas traducciones a otros idiomas '' @
     py ''a menos que el usuario lo solicite expl'' @ [0xED] @ py ''citamente.''"

text \<open>Lines 430 to 441: the stripped message, then one reference line per attachment.\<close>

definition build_content :: "chat_request \<Rightarrow> pystr" where
  "build_content req =
     foldl (\<lambda>content att. content @ [newline] @ py ''[adjunto: '' @ format_opt (name att) @ py '']'')
       (strip (case message req of None \<Rightarrow> [] | Some m \<Rightarrow> m))
       (attachments req)"

text \<open>Lines 469 to 496: the primary call, the legacy fallback, the synthesized error text.\<close>

definition both_failed_text :: "pystr \<Rightarrow> pystr \<Rightarrow> pystr" where
  "both_failed_text e first_error =
     py ''Error contacting LLM service: '' @ e @ [newline] @
     py ''(initial error: '' @ first_error @ py '')''"

definition legacy_content :: "legacy_body \<Rightarrow> pystr" where
  "legacy_content b =
     (let choice = (case legacy_choice_content b of None \<Rightarrow> [] | Some c \<Rightarrow> c);
          assistant_content =
            (case legacy_message b of
               None \<Rightarrow> choice
             | Some m \<Rightarrow> if m \<noteq> [] then m else choice)
      in if assistant_content = []
         then py ''No se recibi'' @ [0xF3] @ py '' contenido del servicio LLM.''
         else assistant_content)"

definition request_completion :: "env \<Rightarrow> payload \<Rightarrow> pystr" where
  "request_completion e p =
     (case post_chat_completions e p of
        Returned c \<Rightarrow> c
      | Raised first_error \<Rightarrow>
          (case post_api_chat e p of
             Returned b \<Rightarrow> legacy_content b
           | Raised err \<Rightarrow> both_failed_text err first_error))"

text \<open>The loop \<open>while len(conversations) <= conv_idx: conversations.append(...)\<close>.\<close>

function pad_conversations :: "conversation list \<Rightarrow> nat \<Rightarrow> conversation list" where
  "pad_conversations convs conv_idx =
     (if length convs \<le> conv_idx
      then pad_conversations (convs @ [\<lparr>messages = []\<rparr>]) conv_idx
      else convs)"
  by pat_completeness auto
termination
  by (relation "measure (\<lambda>(convs, conv_idx). Suc conv_idx - length convs)") auto

declare pad_conversations.simps [simp del]

text \<open>
  \<open>conversations[conv_idx]["messages"] = list(conversation_history)\<close>: an index past the
  end of the list raises \<open>IndexError\<close>.
\<close>

definition set_messages :: "conversation list \<Rightarrow> nat \<Rightarrow> turn list \<Rightarrow> py_error + conversation list" where
  "set_messages convs conv_idx history =
     (if conv_idx < length convs
      then Inr (convs[conv_idx := (convs ! conv_idx)\<lparr>messages := history\<rparr>])
      else Inl IndexError)"

text \<open>Lines 500 to 519: write the history into the store of the session's user.\<close>

definition persist_history :: "state \<Rightarrow> py_error + state" where
  "persist_history st =
     (case session_username (session st) of
        None \<Rightarrow> Inr st
      | Some n \<Rightarrow>
          (if n = [] then Inr st
           else case get_user st n of
                  None \<Rightarrow> Inr st
                | Some u \<Rightarrow>
                    (let (conv_idx, u1, st1) =
                           (case current_conversation (session st) of
                              None \<Rightarrow>
                                (length (conversations u),
                                 u\<lparr>conversations := conversations u @ [\<lparr>messages = []\<rparr>]\<rparr>,
                                 st\<lparr>session := (session st)\<lparr>current_conversation :=
                                                   Some (length (conversations u))\<rparr>\<rparr>)
                            | Some i \<Rightarrow> (i, u, st))
                     in case set_messages (pad_conversations (conversations u1) conv_idx)
                               conv_idx (conversation_history st) of
                          Inl e \<Rightarrow> Inl e
                        | Inr convs \<Rightarrow> Inr (update_user (u1\<lparr>conversations := convs\<rparr>) st1))))"

text \<open>Lines 449 to 459: the system message before the first turn, then the user's turn.\<close>

definition add_user_turn :: "turn list \<Rightarrow> pystr \<Rightarrow> turn list" where
  "add_user_turn history user_content =
     (if history = [] then [Turn (py ''system'') system_prompt] else history)
     @ [Turn (py ''user'') user_content]"

definition chat_payload :: "env \<Rightarrow> chat_request \<Rightarrow> state \<Rightarrow> payload" where
  "chat_payload e req st =
     \<lparr>payload_model = (case model req of None \<Rightarrow> OLLAMA_MODEL e | Some m \<Rightarrow> m),
      payload_messages = add_user_turn (conversation_history st) (build_content req),
      payload_stream = False\<rparr>"

definition chat :: "env \<Rightarrow> chat_request \<Rightarrow> state \<Rightarrow> response \<times> state" where
  "chat e req st =
     (let content = build_content req
      in if content = [] then ((Json_error (py ''Message is empty''), 400), st)
         else
           (let assistant_content = request_completion e (chat_payload e req st);
                st1 = st\<lparr>conversation_history :=
                           add_user_turn (conversation_history st) content
                           @ [Turn (py ''assistant'') assistant_content]\<rparr>
            in case persist_history st1 of
                 Inl err \<Rightarrow> ((Unhandled err, 500), st1)
               | Inr st2 \<Rightarrow> ((Json_message assistant_content, 200), st2)))"

text \<open>A client sending one chat request after another, each with its own service replies.\<close>

fun chat_all :: "(env \<times> chat_request) list \<Rightarrow> state \<Rightarrow> state" where
  "chat_all [] st = st"
| "chat_all ((e, req) # rest) st = chat_all rest (snd (chat e req st))"


section \<open>Observations and sample states\<close>

text \<open>
  The messages the store holds for the conversation the session points to: those of
  conversation \<open>current_conversation\<close> in the record of the session's user.
\<close>

definition persisted :: "state \<Rightarrow> turn list option" where
  "persisted st =
     (case require_user st of
        Inl err \<Rightarrow> None
      | Inr u \<Rightarrow>
          (case current_conversation (session st) of
             None \<Rightarrow> None
           | Some i \<Rightarrow> if i < length (conversations u) then Some (messages (conversations u ! i)) else None))"

text \<open>Their number; 0 when the session points to no stored conversation.\<close>

definition persisted_count :: "state \<Rightarrow> nat" where
  "persisted_count st = (case persisted st of None \<Rightarrow> 0 | Some msgs \<Rightarrow> length msgs)"

text \<open>
  A Python string as it comes back from the file: written, then read.  It is the same
  string unless a high surrogate is directly followed by a low surrogate somewhere in it.
\<close>

definition json_reload_str :: "pystr \<Rightarrow> pystr" where
  "json_reload_str s = json_loads_str (json_dumps_str s)"

definition json_reload_turn :: "turn \<Rightarrow> turn" where
  "json_reload_turn t = json_load_turn (json_dump_turn t)"

definition json_reload_conversation :: "conversation \<Rightarrow> conversation" where
  "json_reload_conversation c = json_load_conversation (json_dump_conversation c)"

definition json_reload_user :: "user \<Rightarrow> user" where
  "json_reload_user u = json_load_user (json_dump_user u)"

fun has_surrogate_pair :: "pystr \<Rightarrow> bool" where
  "has_surrogate_pair (c # d # rest) =
     ((is_high_surrogate c \<and> is_low_surrogate d) \<or> has_surrogate_pair (d # rest))"
| "has_surrogate_pair [c] = False"
| "has_surrogate_pair [] = False"

text \<open>
  The index the persistence step of \<open>chat\<close> writes to: the session pointer, or the
  length of the stored list when the pointer is \<open>None\<close>.
\<close>

definition target_index :: "state \<Rightarrow> user \<Rightarrow> nat" where
  "target_index st u =
     (case current_conversation (session st) of None \<Rightarrow> length (conversations u) | Some i \<Rightarrow> i)"

text \<open>
  Sample data: a store with an administrator and a user who has two conversations, and
  a session of that user right after login, while the process-wide transcript still
  holds a turn of somebody else.
\<close>

definition ana :: user where
  "ana = \<lparr>username = py ''ana'', password_hash = py ''pbkdf2:sha256'', user_role = py ''user'',
           conversations =
             [\<lparr>messages = [Turn (py ''system'') system_prompt, Turn (py ''user'') (py ''hola''),
                           Turn (py ''assistant'') (py ''buenas'')]\<rparr>,
              \<lparr>messages = []\<rparr>]\<rparr>"

definition admin :: user where
  "admin = \<lparr>username = py ''admin'', password_hash = py ''pbkdf2:sha256'', user_role = py ''admin'',
             conversations = []\<rparr>"

definition logged_in :: state where
  "logged_in = \<lparr>users_file = [admin, ana],
                 conversation_history = [Turn (py ''user'') (py ''otro'')],
                 session = \<lparr>session_username = Some (py ''ana''), session_role = Some (py ''user''),
                             current_conversation = None\<rparr>\<rparr>"

text \<open>A service whose primary endpoint answers, and one where both endpoints fail.\<close>

definition service_up :: env where
  "service_up = \<lparr>OLLAMA_MODEL = py ''gpt-oss-20b'',
                  post_chat_completions = (\<lambda>p. Returned (py ''buenas'')),
                  post_api_chat = (\<lambda>p. Raised (py ''404 Not Found''))\<rparr>"

definition service_down :: env where
  "service_down = \<lparr>OLLAMA_MODEL = py ''gpt-oss-20b'',
                    post_chat_completions = (\<lambda>p. Raised (py ''timed out'')),
                    post_api_chat = (\<lambda>p. Raised (py ''refused''))\<rparr>"

text \<open>Requests, and sessions in other situations: not logged in, a pointer past the end.\<close>

definition hola :: chat_request where
  "hola = \<lparr>message = Some (py '' hola ''), attachments = [], model = None\<rparr>"

definition anonymous :: state where
  "anonymous = \<lparr>users_file = [admin, ana], conversation_history = [],
                 session = \<lparr>session_username = None, session_role = None,
                             current_conversation = None\<rparr>\<rparr>"

definition stale_pointer :: state where
  "stale_pointer = \<lparr>users_file = [admin, ana], conversation_history = [],
                     session = \<lparr>session_username = Some (py ''ana''), session_role = Some (py ''user''),
                                 current_conversation = Some 4\<rparr>\<rparr>"

definition only_attachment :: chat_request where
  "only_attachment = \<lparr>message = Some (py ''  ''),
                       attachments = [\<lparr>name = Some (py ''a.png''), data = None\<rparr>],
                       model = None\<rparr>"

definition blank :: chat_request where
  "blank = \<lparr>message = Some (py ''  ''), attachments = [], model = None\<rparr>"

definition adios :: chat_request where
  "adios = \<lparr>message = Some (py ''adios''), attachments = [], model = Some (py ''llama3'')\<rparr>"

definition fresh_login :: state where
  "fresh_login = \<lparr>users_file = [admin, ana], conversation_history = [],
                   session = \<lparr>session_username = Some (py ''ana''), session_role = Some (py ''user''),
                               current_conversation = None\<rparr>\<rparr>"

text \<open>
  A user whose first conversation starts with a line feed, whose second has an empty user
  message and whose third is empty; and a user with the one conversation \<open>Hello\nworld\<close>.
\<close>

definition eva :: user where
  "eva = \<lparr>username = py ''eva'', password_hash = py ''pbkdf2:sha256'', user_role = py ''user'',
           conversations =
             [\<lparr>messages = [Turn (py ''user'') ([newline] @ py ''hola'')]\<rparr>,
              \<lparr>messages = [Turn (py ''system'') system_prompt, Turn (py ''user'') [],
                            Turn (py ''assistant'') (py ''buenas'')]\<rparr>,
              \<lparr>messages = []\<rparr>]\<rparr>"

definition untitled :: state where
  "untitled = \<lparr>users_file = [eva], conversation_history = [],
                session = \<lparr>session_username = Some (py ''eva''), session_role = Some (py ''user''),
                            current_conversation = None\<rparr>\<rparr>"

definition hello_world :: pystr where
  "hello_world = py ''Hello'' @ [newline] @ py ''world''"

definition greeter :: user where
  "greeter = \<lparr>username = py ''bob'', password_hash = py ''pbkdf2:sha256'', user_role = py ''user'',
               conversations = [\<lparr>messages = [Turn (py ''user'') hello_world]\<rparr>]\<rparr>"

definition greeting :: state where
  "greeting = \<lparr>users_file = [greeter], conversation_history = [],
                session = \<lparr>session_username = Some (py ''bob''), session_role = Some (py ''user''),
                            current_conversation = Some 0\<rparr>\<rparr>"

text \<open>A request whose message is a high surrogate followed by a low surrogate.\<close>

definition two_surrogates :: chat_request where
  "two_surrogates = \<lparr>message = Some [0xD83D, 0xDE00], attachments = [], model = None\<rparr>"


section \<open>Writing a string and reading it back\<close>

lemma json_escape_char_first:
  "\<exists>x r. json_escape_char c = x # r \<and> (is_low_surrogate x \<longrightarrow> x = c \<and> r = [])"
  by (auto simp: json_escape_char_def is_low_surrogate_def)

lemma json_dumps_str_Cons: "json_dumps_str (c # s) = json_escape_char c @ json_dumps_str s"
  by (simp add: json_dumps_str_def)

lemma json_dumps_str_first:
  "json_dumps_str (d # s) = x # r \<Longrightarrow> is_low_surrogate x \<Longrightarrow> x = d"
  using json_escape_char_first [of d] by (auto simp: json_dumps_str_Cons)

text \<open>Reading what was written for one code point gives the code point back, unless
  it is a high surrogate that the next character of the document completes.\<close>

lemma json_loads_escape_char:
  assumes "\<not> (is_high_surrogate c \<and> (\<exists>x r. t = x # r \<and> is_low_surrogate x))"
  shows "json_loads_str (json_escape_char c @ t) = c # json_loads_str t"
proof (cases "0x10000 \<le> c \<and> c \<le> 0x10FFFF")
  case True
  then have small: "(c - 0x10000) div 0x400 < 0x400" by arith
  then have m: "((c - 0x10000) div 0x400) mod 0x400 = (c - 0x10000) div 0x400" by simp
  have "(c - 0x10000) div 0x400 * 0x400 + (c - 0x10000) mod 0x400 = c - 0x10000"
    by simp
  then have "0x10000 + ((c - 0x10000) div 0x400 * 0x400 + (c - 0x10000) mod 0x400) = c"
    using True by simp
  moreover have "is_high_surrogate (0xD800 + (c - 0x10000) div 0x400)"
    using small by (simp add: is_high_surrogate_def)
  moreover have "is_low_surrogate (0xDC00 + (c - 0x10000) mod 0x400)"
    by (simp add: is_low_surrogate_def)
  ultimately show ?thesis
    using True by (simp add: json_escape_char_def m)
next
  case False
  then show ?thesis
    using assms by (cases t) (auto simp: json_escape_char_def)
qed

lemma json_reload_str_id: "\<not> has_surrogate_pair s \<Longrightarrow> json_reload_str s = s"
  unfolding json_reload_str_def
proof (induction s rule: has_surrogate_pair.induct)
  case (1 c d rest)
  have "\<not> (is_high_surrogate c \<and> (\<exists>x r. json_dumps_str (d # rest) = x # r \<and> is_low_surrogate x))"
    using "1.prems" json_dumps_str_first [of d rest] by auto
  then have "json_loads_str (json_escape_char c @ json_dumps_str (d # rest)) =
               c # json_loads_str (json_dumps_str (d # rest))"
    by (rule json_loads_escape_char)
  then show ?case
    using 1 by (simp add: json_dumps_str_Cons)
next
  case (2 c)
  have "json_loads_str (json_escape_char c @ []) = c # json_loads_str []"
    by (rule json_loads_escape_char) simp
  then show ?case by (simp add: json_dumps_str_def)
next
  case 3
  then show ?case by (simp add: json_dumps_str_def)
qed

lemma json_loads_str_first:
  "json_loads_str (u # t) = x # r \<Longrightarrow> is_low_surrogate x \<Longrightarrow> x = u"
  by (cases t) (auto simp: is_low_surrogate_def split: if_splits)

lemma json_loads_str_not_Nil: "json_loads_str (u # t) \<noteq> []"
  by (cases t) simp_all

text \<open>What is read from a document never has a high surrogate followed by a low one.\<close>

lemma json_loads_str_no_pair: "\<not> has_surrogate_pair (json_loads_str t)"
proof (induction t rule: json_loads_str.induct)
  case (1 uni uni2 rest)
  show ?case
  proof (cases "is_high_surrogate uni \<and> is_low_surrogate uni2")
    case True
    then have "\<not> has_surrogate_pair (json_loads_str rest)" using 1 by simp
    moreover have "\<not> is_high_surrogate (0x10000 + ((uni - 0xD800) * 0x400 + (uni2 - 0xDC00)))"
      by (simp add: is_high_surrogate_def)
    ultimately show ?thesis
      using True by (cases "json_loads_str rest") simp_all
  next
    case False
    then have ih: "\<not> has_surrogate_pair (json_loads_str (uni2 # rest))" using 1 by simp
    obtain x r where xr: "json_loads_str (uni2 # rest) = x # r"
      using json_loads_str_not_Nil [of uni2 rest] by (cases "json_loads_str (uni2 # rest)") auto
    have "\<not> (is_high_surrogate uni \<and> is_low_surrogate x)"
      using False json_loads_str_first [OF xr] by auto
    moreover have "json_loads_str (uni # uni2 # rest) = uni # x # r"
      using False xr by auto
    ultimately show ?thesis
      using ih xr by simp
  qed
qed simp_all

lemma json_reload_str_loaded [simp]: "json_reload_str (json_loads_str t) = json_loads_str t"
  by (rule json_reload_str_id) (rule json_loads_str_no_pair)

lemma no_high_surrogate_no_pair:
  "\<forall>c \<in> set s. \<not> is_high_surrogate c \<Longrightarrow> \<not> has_surrogate_pair s"
  by (induction s rule: has_surrogate_pair.induct) simp_all

lemma json_loads_str_plain: "\<forall>c \<in> set s. \<not> is_high_surrogate c \<Longrightarrow> json_loads_str s = s"
  by (induction s rule: json_loads_str.induct) simp_all

lemma py_small: "c \<in> set (py s) \<Longrightarrow> c < 256"
  by (auto simp: py_def)

lemma json_loads_str_py [simp]: "json_loads_str (py s) = py s"
  by (rule json_loads_str_plain) (auto simp: is_high_surrogate_def dest: py_small)

lemma json_reload_str_py [simp]: "json_reload_str (py s) = py s"
  by (rule json_reload_str_id, rule no_high_surrogate_no_pair)
    (auto simp: is_high_surrogate_def dest: py_small)

lemma json_reload_turn_eq:
  "json_reload_turn t = Turn (json_reload_str (role t)) (json_reload_str (content t))"
  by (simp add: json_reload_turn_def json_load_turn_def json_dump_turn_def json_reload_str_def)

lemma json_reload_conversation_eq:
  "json_reload_conversation c = \<lparr>messages = map json_reload_turn (messages c)\<rparr>"
  by (simp add: json_reload_conversation_def json_load_conversation_def
      json_dump_conversation_def json_reload_turn_def)

lemma json_reload_user_eq:
  "json_reload_user u =
     \<lparr>username = json_reload_str (username u),
      password_hash = json_reload_str (password_hash u),
      user_role = json_reload_str (user_role u),
      conversations = map json_reload_conversation (conversations u)\<rparr>"
  by (simp add: json_reload_user_def json_load_user_def json_dump_user_def
      json_reload_str_def json_reload_conversation_def)

lemma json_reload_turn_loaded [simp]: "json_reload_turn (json_load_turn t) = json_load_turn t"
  by (simp add: json_reload_turn_eq json_load_turn_def)

lemma json_reload_conversation_loaded [simp]:
  "json_reload_conversation (json_load_conversation c) = json_load_conversation c"
  by (simp add: json_reload_conversation_eq json_load_conversation_def map_idI)

lemma json_reload_user_loaded [simp]: "json_reload_user (json_load_user u) = json_load_user u"
  by (simp add: json_reload_user_eq json_load_user_def map_idI)

lemma json_reload_conversation_empty [simp]:
  "json_reload_conversation \<lparr>messages = []\<rparr> = \<lparr>messages = []\<rparr>"
  by (simp add: json_reload_conversation_eq)

lemma length_json_reload_turns [simp]: "length (map json_reload_turn h) = length h"
  by simp

lemma json_reload_turns_id:
  assumes "\<forall>t \<in> set h. \<not> has_surrogate_pair (role t) \<and> \<not> has_surrogate_pair (content t)"
  shows "map json_reload_turn h = h"
proof (rule map_idI)
  fix t assume "t \<in> set h"
  with assms have "\<not> has_surrogate_pair (role t)" "\<not> has_surrogate_pair (content t)"
    by auto
  then show "json_reload_turn t = t"
    by (simp add: json_reload_turn_eq json_reload_str_id)
qed


section \<open>The user store: lookup after update\<close>

lemma find_user_replace_user: "find_user (replace_user v us) (username v) = Some v"
  by (induction us) auto

lemma find_user_username: "find_user us n = Some u \<Longrightarrow> username u = n"
  by (induction us) (auto split: if_splits)

lemma find_user_in_set: "find_user us n = Some u \<Longrightarrow> u \<in> set us"
  by (induction us) (auto split: if_splits)

lemma get_user_username: "get_user st n = Some u \<Longrightarrow> username u = n"
  by (simp add: get_user_def find_user_username)

text \<open>A record that came out of the file is not changed by writing and reading it.\<close>

lemma loaded_user_reload: "u \<in> set (load_users st) \<Longrightarrow> json_reload_user u = u"
  by (auto simp: load_users_def)

lemma get_user_reload: "get_user st n = Some u \<Longrightarrow> json_reload_user u = u"
  by (auto simp: get_user_def dest: find_user_in_set loaded_user_reload)

lemma get_user_reload_fields:
  assumes "get_user st n = Some u"
  shows "json_reload_str (username u) = username u"
    and "json_reload_str (password_hash u) = password_hash u"
    and "json_reload_str (user_role u) = user_role u"
    and "map json_reload_conversation (conversations u) = conversations u"
proof -
  have "json_reload_user u = u" using assms by (rule get_user_reload)
  then have e: "\<lparr>username = json_reload_str (username u),
      password_hash = json_reload_str (password_hash u),
      user_role = json_reload_str (user_role u),
      conversations = map json_reload_conversation (conversations u)\<rparr> = u"
    by (simp add: json_reload_user_eq)
  show "json_reload_str (username u) = username u"
    using arg_cong [OF e, of username] by simp
  show "json_reload_str (password_hash u) = password_hash u"
    using arg_cong [OF e, of password_hash] by simp
  show "json_reload_str (user_role u) = user_role u"
    using arg_cong [OF e, of user_role] by simp
  show "map json_reload_conversation (conversations u) = conversations u"
    using arg_cong [OF e, of conversations] by simp
qed

lemma json_reload_user_conversations:
  assumes "get_user st n = Some u"
  shows "json_reload_user (u\<lparr>conversations := convs\<rparr>) =
           u\<lparr>conversations := map json_reload_conversation convs\<rparr>"
  using get_user_reload_fields [OF assms] by (cases u) (simp add: json_reload_user_eq)

lemma load_users_update_user:
  "load_users (update_user v st) = map json_reload_user (replace_user v (load_users st))"
  by (simp add: update_user_def save_users_def load_users_def json_reload_user_def)

lemma find_user_map_replace_user:
  assumes "\<forall>u \<in> set us. f u = u" "username (f v) = username v"
  shows "find_user (map f (replace_user v us)) (username v) = Some (f v)"
  using assms by (induction us) auto

text \<open>After \<open>update_user\<close>, \<open>get_user\<close> finds the record as the file gives it back.\<close>

lemma get_user_update_user:
  assumes "get_user st n = Some u"
  shows "get_user (update_user (u\<lparr>conversations := convs\<rparr>) st) n =
           Some (u\<lparr>conversations := map json_reload_conversation convs\<rparr>)"
proof -
  let ?v = "u\<lparr>conversations := convs\<rparr>"
  have n: "username ?v = n" using assms by (simp add: get_user_username)
  have r: "json_reload_user ?v = u\<lparr>conversations := map json_reload_conversation convs\<rparr>"
    using assms by (rule json_reload_user_conversations)
  have "find_user (map json_reload_user (replace_user ?v (load_users st))) (username ?v) =
          Some (json_reload_user ?v)"
  proof (rule find_user_map_replace_user)
    show "\<forall>u \<in> set (load_users st). json_reload_user u = u"
      by (simp add: loaded_user_reload)
    show "username (json_reload_user ?v) = username ?v"
      by (simp add: r)
  qed
  then show ?thesis
    by (simp add: get_user_def load_users_update_user n r)
qed

lemma get_user_frame [simp]:
  "get_user (st\<lparr>conversation_history := h\<rparr>) n = get_user st n"
  "get_user (st\<lparr>session := s\<rparr>) n = get_user st n"
  by (simp_all add: get_user_def load_users_def)

lemma update_user_frame [simp]:
  "conversation_history (update_user v st) = conversation_history st"
  "session (update_user v st) = session st"
  by (simp_all add: update_user_def save_users_def)


section \<open>The padding loop, the persistence step and one chat request\<close>

lemma pad_conversations_eq:
  "pad_conversations convs i = convs @ replicate (Suc i - length convs) \<lparr>messages = []\<rparr>"
proof (induction convs i rule: pad_conversations.induct)
  case (1 convs i)
  show ?case
  proof (cases "length convs \<le> i")
    case True
    then have "Suc i - length convs = Suc (i - length convs)" by simp
    with True 1 show ?thesis
      by (subst pad_conversations.simps) (simp add: replicate_append_same Suc_diff_le)
  next
    case False
    then show ?thesis by (subst pad_conversations.simps) simp
  qed
qed

lemma length_pad_conversations: "length (pad_conversations convs i) = max (length convs) (Suc i)"
  by (simp add: pad_conversations_eq)

lemma set_messages_pad:
  "set_messages (pad_conversations convs i) i h =
     Inr ((pad_conversations convs i)[i := (pad_conversations convs i ! i)\<lparr>messages := h\<rparr>])"
  by (simp add: set_messages_def length_pad_conversations)

lemma persist_history_total: "\<exists>st'. persist_history st = Inr st'"
  by (auto simp: persist_history_def set_messages_pad split: option.splits)

lemma pad_conversations_append_empty:
  "pad_conversations (convs @ [\<lparr>messages = []\<rparr>]) (length convs) = pad_conversations convs (length convs)"
  by (simp add: pad_conversations_eq)

lemma conversation_update [simp]: "(c::conversation)\<lparr>messages := h\<rparr> = \<lparr>messages = h\<rparr>"
  by (cases c) simp

lemma persist_history_user:
  assumes "session_username (session st) = Some n" "n \<noteq> []" "get_user st n = Some u"
  shows "persist_history st =
           Inr (update_user
                  (u\<lparr>conversations :=
                       (pad_conversations (conversations u) (target_index st u))
                         [target_index st u := \<lparr>messages = conversation_history st\<rparr>]\<rparr>)
                  (st\<lparr>session := (session st)\<lparr>current_conversation := Some (target_index st u)\<rparr>\<rparr>))"
proof (cases "current_conversation (session st)")
  case None
  with assms show ?thesis
    by (simp add: persist_history_def target_index_def set_messages_pad
        pad_conversations_append_empty)
next
  case (Some i)
  then have same: "(session st)\<lparr>current_conversation := Some i\<rparr> = session st"
    by (cases "session st") simp
  from assms Some show ?thesis
    by (simp add: persist_history_def target_index_def set_messages_pad same)
qed

lemma persist_history_anonymous:
  "session_username (session st) = None \<Longrightarrow> persist_history st = Inr st"
  by (simp add: persist_history_def)


lemma require_user_Inr:
  "session_username (session st) = Some n \<Longrightarrow> n \<noteq> [] \<Longrightarrow> get_user st n = Some u \<Longrightarrow>
   require_user st = Inr u"
  by (simp add: require_user_def)

lemma require_user_frame [simp]:
  "require_user (st\<lparr>conversation_history := h\<rparr>) = require_user st"
  by (simp add: require_user_def split: option.splits)

lemma chat_user:
  assumes "session_username (session st) = Some n" "n \<noteq> []" "get_user st n = Some u"
    and "build_content req \<noteq> []"
  shows "chat e req st =
     ((Json_message (request_completion e (chat_payload e req st)), 200),
      update_user
        (u\<lparr>conversations :=
             (pad_conversations (conversations u) (target_index st u))
               [target_index st u :=
                  \<lparr>messages = add_user_turn (conversation_history st) (build_content req)
                     @ [Turn (py ''assistant'') (request_completion e (chat_payload e req st))]\<rparr>]\<rparr>)
        (st\<lparr>conversation_history :=
              add_user_turn (conversation_history st) (build_content req)
              @ [Turn (py ''assistant'') (request_completion e (chat_payload e req st))],
            session := (session st)\<lparr>current_conversation := Some (target_index st u)\<rparr>\<rparr>))"
proof -
  let ?h = "add_user_turn (conversation_history st) (build_content req)
              @ [Turn (py ''assistant'') (request_completion e (chat_payload e req st))]"
  let ?st1 = "st\<lparr>conversation_history := ?h\<rparr>"
  have "persist_history ?st1 =
          Inr (update_user
                 (u\<lparr>conversations :=
                      (pad_conversations (conversations u) (target_index ?st1 u))
                        [target_index ?st1 u := \<lparr>messages = conversation_history ?st1\<rparr>]\<rparr>)
                 (?st1\<lparr>session := (session ?st1)\<lparr>current_conversation := Some (target_index ?st1 u)\<rparr>\<rparr>))"
    using assms by (intro persist_history_user [where n = n]) simp_all
  moreover have "target_index ?st1 u = target_index st u"
    by (simp add: target_index_def)
  ultimately show ?thesis
    using assms(4) by (simp add: chat_def Let_def)
qed

lemma chat_anonymous:
  assumes "session_username (session st) = None" "build_content req \<noteq> []"
  shows "chat e req st =
     ((Json_message (request_completion e (chat_payload e req st)), 200),
      st\<lparr>conversation_history :=
              add_user_turn (conversation_history st) (build_content req)
              @ [Turn (py ''assistant'') (request_completion e (chat_payload e req st))]\<rparr>)"
  using assms by (simp add: chat_def Let_def persist_history_anonymous)

lemma chat_empty:
  "build_content req = [] \<Longrightarrow> chat e req st = ((Json_error (py ''Message is empty''), 400), st)"
  by (simp add: chat_def)

lemma target_index_in_range:
  "target_index st u < length (pad_conversations (conversations u) (target_index st u))"
  by (simp add: length_pad_conversations)

lemma map_json_reload_pad:
  assumes "map json_reload_conversation convs = convs"
  shows "map json_reload_conversation ((pad_conversations convs i)[i := \<lparr>messages = h\<rparr>]) =
           (pad_conversations convs i)[i := \<lparr>messages = map json_reload_turn h\<rparr>]"
  using assms by (simp add: map_update pad_conversations_eq json_reload_conversation_eq)

text \<open>What the state holds after an accepted chat request of a logged-in user.\<close>

lemma chat_user_facts:
  assumes "session_username (session st) = Some n" "n \<noteq> []" "get_user st n = Some u"
    and "build_content req \<noteq> []"
  shows "session_username (session (snd (chat e req st))) = Some n"
    and "current_conversation (session (snd (chat e req st))) = Some (target_index st u)"
    and "conversation_history (snd (chat e req st)) =
           add_user_turn (conversation_history st) (build_content req)
           @ [Turn (py ''assistant'') (request_completion e (chat_payload e req st))]"
    and "get_user (snd (chat e req st)) n =
           Some (u\<lparr>conversations :=
             (pad_conversations (conversations u) (target_index st u))
               [target_index st u :=
                  \<lparr>messages = map json_reload_turn (conversation_history (snd (chat e req st)))\<rparr>]\<rparr>)"
proof -
  note c = chat_user [OF assms, of e]
  show "session_username (session (snd (chat e req st))) = Some n"
    using assms(1) by (simp add: c)
  show "current_conversation (session (snd (chat e req st))) = Some (target_index st u)"
    by (simp add: c)
  show h: "conversation_history (snd (chat e req st)) =
           add_user_turn (conversation_history st) (build_content req)
           @ [Turn (py ''assistant'') (request_completion e (chat_payload e req st))]"
    by (simp add: c)
  let ?st1 = "st\<lparr>conversation_history := conversation_history (snd (chat e req st)),
                 session := (session st)\<lparr>current_conversation := Some (target_index st u)\<rparr>\<rparr>"
  have "get_user ?st1 n = Some u" using assms(3) by simp
  then have "get_user
          (update_user
             (u\<lparr>conversations :=
                  (pad_conversations (conversations u) (target_index st u))
                    [target_index st u := \<lparr>messages = conversation_history (snd (chat e req st))\<rparr>]\<rparr>)
             ?st1) n =
        Some (u\<lparr>conversations := map json_reload_conversation
             ((pad_conversations (conversations u) (target_index st u))
               [target_index st u := \<lparr>messages = conversation_history (snd (chat e req st))\<rparr>])\<rparr>)"
    by (rule get_user_update_user)
  moreover have "snd (chat e req st) =
          update_user
             (u\<lparr>conversations :=
                  (pad_conversations (conversations u) (target_index st u))
                    [target_index st u := \<lparr>messages = conversation_history (snd (chat e req st))\<rparr>]\<rparr>)
             ?st1"
    by (simp add: h) (simp add: c)
  ultimately show "get_user (snd (chat e req st)) n =
           Some (u\<lparr>conversations :=
             (pad_conversations (conversations u) (target_index st u))
               [target_index st u :=
                  \<lparr>messages = map json_reload_turn (conversation_history (snd (chat e req st)))\<rparr>]\<rparr>)"
    using map_json_reload_pad [OF get_user_reload_fields(4) [OF assms(3)]] by simp
qed

text \<open>The store then holds the working transcript as the file gives it back.\<close>

lemma chat_user_persisted:
  assumes "session_username (session st) = Some n" "n \<noteq> []" "get_user st n = Some u"
    and "build_content req \<noteq> []"
  shows "persisted (snd (chat e req st)) =
           Some (map json_reload_turn (conversation_history (snd (chat e req st))))"
  using chat_user_facts [OF assms, of e]
  by (simp add: persisted_def require_user_def assms(2) length_pad_conversations)


section \<open>Selecting a conversation\<close>

lemma json_loads_str_Cons_plain [simp]:
  "\<not> is_high_surrogate c \<Longrightarrow> json_loads_str (c # s) = c # json_loads_str s"
  by (cases s) simp_all

lemma json_loads_str_system_prompt [simp]: "json_loads_str system_prompt = system_prompt"
  by (rule json_loads_str_plain)
    (auto simp: system_prompt_def is_high_surrogate_def dest: py_small)

lemma json_reload_str_system_prompt [simp]: "json_reload_str system_prompt = system_prompt"
  by (rule json_reload_str_id, rule no_high_surrogate_no_pair)
    (auto simp: system_prompt_def is_high_surrogate_def dest: py_small)

text \<open>The sample records are read from the file as they stand.\<close>

lemma json_load_sample_users [simp]:
  "json_load_user admin = admin" "json_load_user ana = ana"
  by (simp_all add: json_load_user_def json_load_conversation_def json_load_turn_def
      admin_def ana_def)

lemma logged_in_user:
  "session_username (session logged_in) = Some (py ''ana'')" "py ''ana'' \<noteq> []"
  "get_user logged_in (py ''ana'') = Some ana"
proof -
  show "session_username (session logged_in) = Some (py ''ana'')"
    by (simp add: logged_in_def)
  show "py ''ana'' \<noteq> []"
    by (simp add: py_def)
  have "load_users logged_in = [admin, ana]"
    by (simp add: load_users_def logged_in_def)
  then show "get_user logged_in (py ''ana'') = Some ana"
    by (simp add: get_user_def) (simp add: admin_def ana_def py_def)
qed

text \<open>
  Claim C3.  For a session whose user is in the store and every integer \<open>i\<close>:
  if \<open>0 \<le> i < len(conversations)\<close>, \<open>api_get_conversation\<close> answers 200 with the
  stored messages of conversation \<open>i\<close>, makes them the whole working transcript and sets
  \<open>current_conversation\<close> to \<open>i\<close>; for every other \<open>i\<close> it answers 404 and returns the
  state, and so the working transcript, as it was.
\<close>

theorem select_conversation:
  assumes "session_username (session st) = Some n" "n \<noteq> []" "get_user st n = Some u"
  shows "(0 \<le> i \<and> i < int (length (conversations u)) \<longrightarrow>
            fst (api_get_conversation i st) = (Json_messages (messages (conversations u ! nat i)), 200) \<and>
            conversation_history (snd (api_get_conversation i st)) = messages (conversations u ! nat i) \<and>
            current_conversation (session (snd (api_get_conversation i st))) = Some (nat i)) \<and>
         (\<not> (0 \<le> i \<and> i < int (length (conversations u))) \<longrightarrow>
            fst (api_get_conversation i st) = (Json_error invalid_index_text, 404) \<and>
            snd (api_get_conversation i st) = st \<and>
            conversation_history (snd (api_get_conversation i st)) = conversation_history st)"
  using assms by (auto simp: api_get_conversation_def require_user_def Let_def)

theorem select_conversation_witness:
  "session_username (session logged_in) = Some (py ''ana'') \<and> py ''ana'' \<noteq> [] \<and>
   get_user logged_in (py ''ana'') = Some ana \<and>
   conversation_history (snd (api_get_conversation 0 logged_in)) =
     [Turn (py ''system'') system_prompt, Turn (py ''user'') (py ''hola''),
      Turn (py ''assistant'') (py ''buenas'')] \<and>
   current_conversation (session (snd (api_get_conversation 0 logged_in))) = Some 0 \<and>
   fst (api_get_conversation 2 logged_in) = (Json_error invalid_index_text, 404) \<and>
   conversation_history (snd (api_get_conversation 2 logged_in)) = [Turn (py ''user'') (py ''otro'')] \<and>
   fst (api_get_conversation (- 1) logged_in) = (Json_error invalid_index_text, 404) \<and>
   conversation_history (snd (api_get_conversation (- 1) logged_in)) = [Turn (py ''user'') (py ''otro'')]"
  using select_conversation [OF logged_in_user, of 0]
    select_conversation [OF logged_in_user, of 2]
    select_conversation [OF logged_in_user, of "- 1"]
    logged_in_user
  by (simp add: ana_def) (simp add: logged_in_def)


section \<open>Creating a conversation\<close>

lemma api_new_chat_user:
  assumes "session_username (session st) = Some n" "n \<noteq> []" "get_user st n = Some u"
  shows "api_new_chat st =
           ((Json_id (length (conversations u)), 200),
            (update_user (u\<lparr>conversations := conversations u @ [\<lparr>messages = []\<rparr>]\<rparr>) st)
              \<lparr>conversation_history := [],
               session := (session st)\<lparr>current_conversation := Some (length (conversations u))\<rparr>\<rparr>)"
  using assms by (simp add: api_new_chat_def require_user_def Let_def)

lemma api_new_chat_facts:
  assumes "session_username (session st) = Some n" "n \<noteq> []" "get_user st n = Some u"
  shows "fst (api_new_chat st) = (Json_id (length (conversations u)), 200)"
    and "session_username (session (snd (api_new_chat st))) = Some n"
    and "get_user (snd (api_new_chat st)) n =
           Some (u\<lparr>conversations := conversations u @ [\<lparr>messages = []\<rparr>]\<rparr>)"
    and "conversation_history (snd (api_new_chat st)) = []"
    and "current_conversation (session (snd (api_new_chat st))) = Some (length (conversations u))"
proof -
  note c = api_new_chat_user [OF assms]
  show "fst (api_new_chat st) = (Json_id (length (conversations u)), 200)"
    by (simp add: c)
  show "session_username (session (snd (api_new_chat st))) = Some n"
    by (simp add: c assms(1))
  have "get_user (update_user (u\<lparr>conversations := conversations u @ [\<lparr>messages = []\<rparr>]\<rparr>) st) n =
          Some (u\<lparr>conversations :=
                  map json_reload_conversation (conversations u @ [\<lparr>messages = []\<rparr>])\<rparr>)"
    using assms(3) by (rule get_user_update_user)
  then show "get_user (snd (api_new_chat st)) n =
           Some (u\<lparr>conversations := conversations u @ [\<lparr>messages = []\<rparr>]\<rparr>)"
    using get_user_reload_fields(4) [OF assms(3)] by (simp add: c)
  show "conversation_history (snd (api_new_chat st)) = []"
    by (simp add: c)
  show "current_conversation (session (snd (api_new_chat st))) = Some (length (conversations u))"
    by (simp add: c)
qed

lemma api_get_conversation_nat:
  assumes "require_user st = Inr u" "k < length (conversations u)"
  shows "api_get_conversation (int k) st =
           ((Json_messages (messages (conversations u ! k)), 200),
            st\<lparr>conversation_history := messages (conversations u ! k),
               session := (session st)\<lparr>current_conversation := Some k\<rparr>\<rparr>)"
  using assms by (simp add: api_get_conversation_def Let_def)

lemma api_new_chat_twice:
  assumes "session_username (session st) = Some n" "n \<noteq> []" "get_user st n = Some u"
  shows "fst (api_new_chat (snd (api_new_chat st))) = (Json_id (length (conversations u) + 1), 200)"
    and "get_user (snd (api_new_chat (snd (api_new_chat st)))) n =
           Some (u\<lparr>conversations := conversations u @ [\<lparr>messages = []\<rparr>, \<lparr>messages = []\<rparr>]\<rparr>)"
    and "fst (api_get_conversation (int (length (conversations u)))
                (snd (api_new_chat (snd (api_new_chat st))))) = (Json_messages [], 200)"
    and "fst (api_get_conversation (int (length (conversations u) + 1))
                (snd (api_new_chat (snd (api_new_chat st))))) = (Json_messages [], 200)"
proof -
  let ?st1 = "snd (api_new_chat st)"
  let ?st2 = "snd (api_new_chat ?st1)"
  note first = api_new_chat_facts [OF assms]
  note second = api_new_chat_facts [OF first(2) assms(2) first(3)]
  show "fst (api_new_chat ?st1) = (Json_id (length (conversations u) + 1), 200)"
    using second(1) by simp
  show u2: "get_user ?st2 n =
           Some (u\<lparr>conversations := conversations u @ [\<lparr>messages = []\<rparr>, \<lparr>messages = []\<rparr>]\<rparr>)"
    using second(3) by simp
  have r: "require_user ?st2 =
        Inr (u\<lparr>conversations := conversations u @ [\<lparr>messages = []\<rparr>, \<lparr>messages = []\<rparr>]\<rparr>)"
    using second(2) assms(2) u2 by (rule require_user_Inr)
  show "fst (api_get_conversation (int (length (conversations u))) ?st2) = (Json_messages [], 200)"
    by (subst api_get_conversation_nat [OF r]) (simp_all add: nth_append)
  show "fst (api_get_conversation (int (length (conversations u) + 1)) ?st2) = (Json_messages [], 200)"
    by (subst api_get_conversation_nat [OF r]) (simp_all add: nth_append)
qed

text \<open>
  Claim C5.  For a session whose user \<open>u\<close> is in the store, \<open>api_new_chat\<close> answers with
  the index \<open>len(conversations) - 1\<close> of the list after the append, which is the length
  of the list before it; the stored record then has one more, empty, conversation at the
  end; the working transcript is empty and the session points to the new index.  A second
  call right after answers with the next index, the store then ends with two empty
  conversations, and selecting either index returns the empty message list.
\<close>

theorem new_chat_creates_empty_conversation:
  assumes "session_username (session st) = Some n" "n \<noteq> []" "get_user st n = Some u"
  shows "fst (api_new_chat st) = (Json_id (length (conversations u @ [\<lparr>messages = []\<rparr>]) - 1), 200) \<and>
         fst (api_new_chat st) = (Json_id (length (conversations u)), 200) \<and>
         get_user (snd (api_new_chat st)) n =
           Some (u\<lparr>conversations := conversations u @ [\<lparr>messages = []\<rparr>]\<rparr>) \<and>
         conversation_history (snd (api_new_chat st)) = [] \<and>
         current_conversation (session (snd (api_new_chat st))) = Some (length (conversations u)) \<and>
         fst (api_new_chat (snd (api_new_chat st))) = (Json_id (length (conversations u) + 1), 200) \<and>
         get_user (snd (api_new_chat (snd (api_new_chat st)))) n =
           Some (u\<lparr>conversations := conversations u @ [\<lparr>messages = []\<rparr>, \<lparr>messages = []\<rparr>]\<rparr>) \<and>
         fst (api_get_conversation (int (length (conversations u)))
                (snd (api_new_chat (snd (api_new_chat st))))) = (Json_messages [], 200) \<and>
         fst (api_get_conversation (int (length (conversations u) + 1))
                (snd (api_new_chat (snd (api_new_chat st))))) = (Json_messages [], 200)"
  using api_new_chat_facts [OF assms] api_new_chat_twice [OF assms] by simp

theorem new_chat_creates_empty_conversation_witness:
  "session_username (session logged_in) = Some (py ''ana'') \<and> py ''ana'' \<noteq> [] \<and>
   get_user logged_in (py ''ana'') = Some ana \<and>
   fst (api_new_chat logged_in) = (Json_id 2, 200) \<and>
   conversation_history (snd (api_new_chat logged_in)) = [] \<and>
   current_conversation (session (snd (api_new_chat logged_in))) = Some 2 \<and>
   fst (api_new_chat (snd (api_new_chat logged_in))) = (Json_id 3, 200) \<and>
   fst (api_get_conversation 2 (snd (api_new_chat (snd (api_new_chat logged_in))))) =
     (Json_messages [], 200) \<and>
   fst (api_get_conversation 3 (snd (api_new_chat (snd (api_new_chat logged_in))))) =
     (Json_messages [], 200)"
  using new_chat_creates_empty_conversation [OF logged_in_user] logged_in_user
  by (simp add: ana_def)


section \<open>Chat, then select: the round trip\<close>

lemma build_content_hola: "build_content hola = py ''hola''"
  by (simp add: build_content_def hola_def strip_def isspace_def py_def)

lemma persist_history_history:
  "persist_history st = Inr st' \<Longrightarrow> conversation_history st' = conversation_history st"
  by (auto simp: persist_history_def set_messages_pad split: option.splits if_splits)

lemma chat_accepted:
  assumes "build_content req \<noteq> []"
  shows "fst (chat e req st) = (Json_message (request_completion e (chat_payload e req st)), 200)"
    and "conversation_history (snd (chat e req st)) =
           add_user_turn (conversation_history st) (build_content req)
           @ [Turn (py ''assistant'') (request_completion e (chat_payload e req st))]"
proof -
  let ?st1 = "st\<lparr>conversation_history :=
                  add_user_turn (conversation_history st) (build_content req)
                  @ [Turn (py ''assistant'') (request_completion e (chat_payload e req st))]\<rparr>"
  obtain st2 where p: "persist_history ?st1 = Inr st2"
    using persist_history_total by blast
  then have c: "chat e req st = ((Json_message (request_completion e (chat_payload e req st)), 200), st2)"
    using assms by (simp add: chat_def Let_def)
  show "fst (chat e req st) = (Json_message (request_completion e (chat_payload e req st)), 200)"
    by (simp add: c)
  show "conversation_history (snd (chat e req st)) =
           add_user_turn (conversation_history st) (build_content req)
           @ [Turn (py ''assistant'') (request_completion e (chat_payload e req st))]"
    using persist_history_history [OF p] by (simp add: c)
qed

lemma fresh_login_user:
  "session_username (session fresh_login) = Some (py ''ana'')" "py ''ana'' \<noteq> []"
  "get_user fresh_login (py ''ana'') = Some ana"
proof -
  show "session_username (session fresh_login) = Some (py ''ana'')"
    by (simp add: fresh_login_def)
  show "py ''ana'' \<noteq> []"
    by (simp add: py_def)
  have "load_users fresh_login = [admin, ana]"
    by (simp add: load_users_def fresh_login_def)
  then show "get_user fresh_login (py ''ana'') = Some ana"
    by (simp add: get_user_def) (simp add: admin_def ana_def py_def)
qed

text \<open>
  Selecting the conversation \<open>chat\<close> wrote to returns what the file gives back,
  whatever the working transcript has become in between.
\<close>

lemma chat_then_select:
  assumes "session_username (session st) = Some n" "n \<noteq> []" "get_user st n = Some u"
    and "build_content req \<noteq> []"
  shows "api_get_conversation (int (target_index st u))
           ((snd (chat e req st))\<lparr>conversation_history := h\<rparr>) =
         ((Json_messages (map json_reload_turn (conversation_history (snd (chat e req st)))), 200),
          (snd (chat e req st))
            \<lparr>conversation_history := map json_reload_turn (conversation_history (snd (chat e req st))),
             session := (session (snd (chat e req st)))
                          \<lparr>current_conversation := Some (target_index st u)\<rparr>\<rparr>)"
proof -
  let ?st1 = "snd (chat e req st)"
  let ?i = "target_index st u"
  note f = chat_user_facts [OF assms, of e]
  let ?u1 = "u\<lparr>conversations := (pad_conversations (conversations u) ?i)
                  [?i := \<lparr>messages = map json_reload_turn (conversation_history ?st1)\<rparr>]\<rparr>"
  have "require_user ?st1 = Inr ?u1"
    using f(1) assms(2) f(4) by (rule require_user_Inr)
  then have r: "require_user (?st1\<lparr>conversation_history := h\<rparr>) = Inr ?u1"
    by simp
  have "?i < length (conversations ?u1)"
    by (simp add: length_pad_conversations)
  from api_get_conversation_nat [OF r this] show ?thesis
    by (simp add: length_pad_conversations)
qed

lemma chat_then_select_now:
  assumes "session_username (session st) = Some n" "n \<noteq> []" "get_user st n = Some u"
    and "build_content req \<noteq> []"
  shows "fst (api_get_conversation (int (target_index st u)) (snd (chat e req st))) =
           (Json_messages (map json_reload_turn (conversation_history (snd (chat e req st)))), 200)"
proof -
  let ?st1 = "snd (chat e req st)"
  have s: "?st1\<lparr>conversation_history := conversation_history ?st1\<rparr> = ?st1"
    by simp
  show ?thesis
    using chat_then_select [OF assms, where e = e and h = "conversation_history ?st1"]
    by (simp only: s) simp
qed

text \<open>
  Claim C7, as stated, fails: a message made of a high surrogate followed by a low
  surrogate is persisted and comes back from the store as one code point.
\<close>

theorem chat_then_select_changes_content_counterexample:
  "conversation_history (snd (chat service_up two_surrogates fresh_login)) =
     [Turn (py ''system'') system_prompt, Turn (py ''user'') [0xD83D, 0xDE00],
      Turn (py ''assistant'') (py ''buenas'')] \<and>
   current_conversation (session (snd (chat service_up two_surrogates fresh_login))) = Some 2 \<and>
   fst (api_get_conversation 2 (snd (chat service_up two_surrogates fresh_login))) =
     (Json_messages [Turn (py ''system'') system_prompt, Turn (py ''user'') [0x1F600],
                     Turn (py ''assistant'') (py ''buenas'')], 200)"
proof -
  let ?st1 = "snd (chat service_up two_surrogates fresh_login)"
  have b: "build_content two_surrogates = [0xD83D, 0xDE00]"
    by (simp add: build_content_def two_surrogates_def strip_def isspace_def)
  then have c: "build_content two_surrogates \<noteq> []"
    by simp
  have t: "target_index fresh_login ana = 2"
    by (simp add: target_index_def fresh_login_def ana_def)
  have r: "request_completion service_up (chat_payload service_up two_surrogates fresh_login) = py ''buenas''"
    by (simp add: request_completion_def service_up_def)
  have e: "conversation_history fresh_login = []"
    by (simp add: fresh_login_def)
  note f = chat_user_facts [OF fresh_login_user c, of service_up]
  have h: "conversation_history ?st1 =
     [Turn (py ''system'') system_prompt, Turn (py ''user'') [0xD83D, 0xDE00],
      Turn (py ''assistant'') (py ''buenas'')]"
    by (simp add: f(3) b r e add_user_turn_def)
  have p: "current_conversation (session ?st1) = Some 2"
    by (simp add: f(2) t)
  have x: "json_reload_str [0xD83D, 0xDE00] = [0x1F600]"
    by (simp add: json_reload_str_def json_dumps_str_def json_escape_char_def
        is_high_surrogate_def is_low_surrogate_def)
  have "fst (api_get_conversation (int (target_index fresh_login ana)) ?st1) =
          (Json_messages (map json_reload_turn (conversation_history ?st1)), 200)"
    using fresh_login_user c by (rule chat_then_select_now)
  then have "fst (api_get_conversation 2 ?st1) =
     (Json_messages [Turn (py ''system'') system_prompt, Turn (py ''user'') [0x1F600],
                     Turn (py ''assistant'') (py ''buenas'')], 200)"
    by (simp add: t h json_reload_turn_eq x)
  with h p show ?thesis by simp
qed

text \<open>
  Claim C7, amended.  After an accepted chat request of a logged-in user, the session
  points to a conversation \<open>i\<close> that holds the working transcript as the file gives it
  back.  Selecting \<open>i\<close>, right away or after the working transcript has become any other
  list \<open>h\<close>, returns that list of turns and makes it the working transcript.  It has as
  many turns as the transcript that was persisted, and it is that transcript, with the
  same roles and contents, when no role and no content in it has a high surrogate
  directly followed by a low surrogate (the file gives such a pair back as the one code
  point it encodes).
\<close>

theorem chat_then_select_roundtrip:
  assumes "session_username (session st) = Some n" "n \<noteq> []" "get_user st n = Some u"
    and "build_content req \<noteq> []"
  shows "current_conversation (session (snd (chat e req st))) = Some (target_index st u) \<and>
         persisted (snd (chat e req st)) =
           Some (map json_reload_turn (conversation_history (snd (chat e req st)))) \<and>
         fst (api_get_conversation (int (target_index st u)) (snd (chat e req st))) =
           (Json_messages (map json_reload_turn (conversation_history (snd (chat e req st)))), 200) \<and>
         fst (api_get_conversation (int (target_index st u))
                ((snd (chat e req st))\<lparr>conversation_history := h\<rparr>)) =
           (Json_messages (map json_reload_turn (conversation_history (snd (chat e req st)))), 200) \<and>
         conversation_history (snd (api_get_conversation (int (target_index st u))
                ((snd (chat e req st))\<lparr>conversation_history := h\<rparr>))) =
           map json_reload_turn (conversation_history (snd (chat e req st))) \<and>
         length (map json_reload_turn (conversation_history (snd (chat e req st)))) =
           length (conversation_history (snd (chat e req st))) \<and>
         ((\<forall>t \<in> set (conversation_history (snd (chat e req st))).
              \<not> has_surrogate_pair (role t) \<and> \<not> has_surrogate_pair (content t)) \<longrightarrow>
            map json_reload_turn (conversation_history (snd (chat e req st))) =
              conversation_history (snd (chat e req st)))"
  using chat_user_facts(2) [OF assms, of e] chat_user_persisted [OF assms, of e]
    chat_then_select_now [OF assms, of e]
    chat_then_select [OF assms, where e = e and h = h] json_reload_turns_id
  by simp

theorem chat_then_select_roundtrip_witness:
  "session_username (session logged_in) = Some (py ''ana'') \<and> py ''ana'' \<noteq> [] \<and>
   get_user logged_in (py ''ana'') = Some ana \<and> build_content hola \<noteq> [] \<and>
   conversation_history (snd (chat service_up hola logged_in)) =
     [Turn (py ''user'') (py ''otro''), Turn (py ''user'') (py ''hola''),
      Turn (py ''assistant'') (py ''buenas'')] \<and>
   current_conversation (session (snd (chat service_up hola logged_in))) = Some 2 \<and>
   fst (api_get_conversation 2 ((snd (chat service_up hola logged_in))\<lparr>conversation_history := []\<rparr>)) =
     (Json_messages [Turn (py ''user'') (py ''otro''), Turn (py ''user'') (py ''hola''),
                     Turn (py ''assistant'') (py ''buenas'')], 200)"
proof -
  have c: "build_content hola \<noteq> []"
    by (simp add: build_content_hola py_def)
  have h: "conversation_history (snd (chat service_up hola logged_in)) =
        [Turn (py ''user'') (py ''otro''), Turn (py ''user'') (py ''hola''),
         Turn (py ''assistant'') (py ''buenas'')]"
    using chat_accepted(2) [OF c, of service_up logged_in]
    by (simp add: build_content_hola add_user_turn_def logged_in_def request_completion_def
        service_up_def)
  have t: "target_index logged_in ana = 2"
    by (simp add: target_index_def logged_in_def ana_def)
  show ?thesis
    using chat_then_select_roundtrip [OF logged_in_user c, where e = service_up and h = "[]"] logged_in_user c
    by (simp add: h t json_reload_turn_eq)
qed


section \<open>Chat with a session pointer past the end of the stored list\<close>

lemma replicate_Suc_update_last: "(replicate (Suc k) x)[k := y] = replicate k x @ [y]"
  by (induction k) simp_all

lemma pad_conversations_update_past_end:
  assumes "length convs \<le> i"
  shows "(pad_conversations convs i)[i := c] =
           convs @ replicate (i - length convs) \<lparr>messages = []\<rparr> @ [c]"
proof -
  have "Suc i - length convs = Suc (i - length convs)"
    using assms by simp
  then have "(pad_conversations convs i)[i := c] =
      convs @ (replicate (Suc (i - length convs)) \<lparr>messages = []\<rparr>)[i - length convs := c]"
    using assms by (simp add: pad_conversations_eq list_update_append del: replicate_Suc)
  then show ?thesis
    by (simp only: replicate_Suc_update_last)
qed

text \<open>
  Claim C9.  For an accepted chat request of a logged-in user whose session pointer \<open>i\<close>
  is at or past the end of the stored conversation list, the indexed write does not raise:
  the answer is the 200 reply, and the stored list becomes the old list, then empty
  conversations up to index \<open>i\<close>, then at index \<open>i\<close> the whole working transcript as the
  file gives it back: the working transcript itself, unless a role or content in it has
  a high surrogate directly followed by a low surrogate.
\<close>

theorem chat_pads_stored_conversations:
  assumes "session_username (session st) = Some n" "n \<noteq> []" "get_user st n = Some u"
    and "build_content req \<noteq> []"
    and "current_conversation (session st) = Some i" "length (conversations u) \<le> i"
  shows "fst (chat e req st) = (Json_message (request_completion e (chat_payload e req st)), 200) \<and>
         get_user (snd (chat e req st)) n =
           Some (u\<lparr>conversations :=
                    conversations u @ replicate (i - length (conversations u)) \<lparr>messages = []\<rparr>
                    @ [\<lparr>messages = map json_reload_turn (conversation_history (snd (chat e req st)))\<rparr>]\<rparr>) \<and>
         conversation_history (snd (chat e req st)) =
           add_user_turn (conversation_history st) (build_content req)
           @ [Turn (py ''assistant'') (request_completion e (chat_payload e req st))] \<and>
         current_conversation (session (snd (chat e req st))) = Some i \<and>
         ((\<forall>t \<in> set (conversation_history (snd (chat e req st))).
             \<not> has_surrogate_pair (role t) \<and> \<not> has_surrogate_pair (content t)) \<longrightarrow>
           map json_reload_turn (conversation_history (snd (chat e req st))) =
             conversation_history (snd (chat e req st)))"
proof -
  have t: "target_index st u = i"
    using assms(5) by (simp add: target_index_def)
  note f = chat_user_facts [OF assms(1-4), of e]
  have same: "((\<forall>t \<in> set (conversation_history (snd (chat e req st))).
             \<not> has_surrogate_pair (role t) \<and> \<not> has_surrogate_pair (content t)) \<longrightarrow>
           map json_reload_turn (conversation_history (snd (chat e req st))) =
             conversation_history (snd (chat e req st)))"
    using json_reload_turns_id by blast
  have "fst (chat e req st) = (Json_message (request_completion e (chat_payload e req st)), 200) \<and>
         get_user (snd (chat e req st)) n =
           Some (u\<lparr>conversations :=
                    conversations u @ replicate (i - length (conversations u)) \<lparr>messages = []\<rparr>
                    @ [\<lparr>messages = map json_reload_turn (conversation_history (snd (chat e req st)))\<rparr>]\<rparr>) \<and>
         conversation_history (snd (chat e req st)) =
           add_user_turn (conversation_history st) (build_content req)
           @ [Turn (py ''assistant'') (request_completion e (chat_payload e req st))] \<and>
         current_conversation (session (snd (chat e req st))) = Some i"
    using chat_accepted(1) [OF assms(4), of e st] f(2) f(3) f(4)
    by (simp add: t pad_conversations_update_past_end [OF assms(6)])
  with same show ?thesis by blast
qed

theorem chat_pads_stored_conversations_witness:
  "session_username (session stale_pointer) = Some (py ''ana'') \<and> py ''ana'' \<noteq> [] \<and>
   get_user stale_pointer (py ''ana'') = Some ana \<and> build_content hola \<noteq> [] \<and>
   current_conversation (session stale_pointer) = Some 4 \<and> length (conversations ana) \<le> 4 \<and>
   fst (chat service_up hola stale_pointer) = (Json_message (py ''buenas''), 200) \<and>
   get_user (snd (chat service_up hola stale_pointer)) (py ''ana'') =
     Some (ana\<lparr>conversations :=
             conversations ana @ [\<lparr>messages = []\<rparr>, \<lparr>messages = []\<rparr>,
               \<lparr>messages = [Turn (py ''system'') system_prompt, Turn (py ''user'') (py ''hola''),
                             Turn (py ''assistant'') (py ''buenas'')]\<rparr>]\<rparr>)"
proof -
  have "load_users stale_pointer = [admin, ana]"
    by (simp add: load_users_def stale_pointer_def)
  then have "get_user stale_pointer (py ''ana'') = Some ana"
    by (simp add: get_user_def) (simp add: admin_def ana_def py_def)
  then have a: "session_username (session stale_pointer) = Some (py ''ana'')" "py ''ana'' \<noteq> []"
    "get_user stale_pointer (py ''ana'') = Some ana"
    by (simp_all add: stale_pointer_def py_def)
  have c: "build_content hola \<noteq> []"
    by (simp add: build_content_hola py_def)
  have p: "current_conversation (session stale_pointer) = Some 4"
    by (simp add: stale_pointer_def)
  have l: "length (conversations ana) \<le> 4"
    by (simp add: ana_def)
  have r: "request_completion service_up (chat_payload service_up hola stale_pointer) = py ''buenas''"
    by (simp add: request_completion_def service_up_def)
  have h: "conversation_history stale_pointer = []"
    by (simp add: stale_pointer_def)
  have k: "4 - length (conversations ana) = Suc (Suc 0)"
    by (simp add: ana_def)
  show ?thesis
    using chat_pads_stored_conversations [OF a c p l, of service_up] a c p l
    by (simp add: r h k build_content_hola add_user_turn_def json_reload_turn_eq)
qed


section \<open>Chat without a session\<close>

lemma foldl_attachments_empty:
  "foldl (\<lambda>content att. content @ [newline] @ py ''[adjunto: '' @ format_opt (name att) @ py '']'') c atts = []
     \<longleftrightarrow> c = [] \<and> atts = []"
  by (induction atts arbitrary: c) simp_all

lemma build_content_empty:
  "build_content req = [] \<longleftrightarrow>
     strip (case message req of None \<Rightarrow> [] | Some m \<Rightarrow> m) = [] \<and> attachments req = []"
  unfolding build_content_def by (rule foldl_attachments_empty)

text \<open>
  Claim C8.  With no user name in the session, \<open>chat\<close> never touches the store and
  never answers 401; when the request has content it answers 200 with the assistant's
  reply, and the working transcript gains the user's turn and the assistant's turn (after
  the system turn, if the transcript was empty).
\<close>

theorem chat_without_session:
  assumes "session_username (session st) = None"
  shows "users_file (snd (chat e req st)) = users_file st \<and>
         snd (fst (chat e req st)) \<noteq> 401 \<and>
         (build_content req \<noteq> [] \<longrightarrow>
            fst (chat e req st) = (Json_message (request_completion e (chat_payload e req st)), 200) \<and>
            conversation_history (snd (chat e req st)) =
              add_user_turn (conversation_history st) (build_content req)
              @ [Turn (py ''assistant'') (request_completion e (chat_payload e req st))])"
proof (cases "build_content req = []")
  case True
  then show ?thesis by (simp add: chat_empty)
next
  case False
  with assms show ?thesis by (simp add: chat_anonymous)
qed

theorem chat_without_session_witness:
  "session_username (session anonymous) = None \<and> build_content hola \<noteq> [] \<and>
   users_file (snd (chat service_up hola anonymous)) = [admin, ana] \<and>
   fst (chat service_up hola anonymous) = (Json_message (py ''buenas''), 200) \<and>
   conversation_history (snd (chat service_up hola anonymous)) =
     [Turn (py ''system'') system_prompt, Turn (py ''user'') (py ''hola''),
      Turn (py ''assistant'') (py ''buenas'')]"
proof -
  have a: "session_username (session anonymous) = None"
    by (simp add: anonymous_def)
  have c: "build_content hola \<noteq> []"
    by (simp add: build_content_hola py_def)
  have r: "request_completion service_up (chat_payload service_up hola anonymous) = py ''buenas''"
    by (simp add: request_completion_def service_up_def)
  have h: "conversation_history anonymous = []" "users_file anonymous = [admin, ana]"
    by (simp_all add: anonymous_def)
  show ?thesis
    using chat_without_session [OF a, of service_up hola] a c
    by (simp add: r h build_content_hola add_user_turn_def)
qed


section \<open>Chat when the service fails, and the empty message\<close>

lemma sublist_both_failed_text:
  "sublist err (both_failed_text err first_error)"
  "sublist first_error (both_failed_text err first_error)"
proof -
  show "sublist err (both_failed_text err first_error)"
    unfolding both_failed_text_def sublist_def by blast
  have "both_failed_text err first_error =
          (py ''Error contacting LLM service: '' @ err @ [newline] @ py ''(initial error: '')
          @ first_error @ py '')''"
    by (simp add: both_failed_text_def)
  then show "sublist first_error (both_failed_text err first_error)"
    unfolding sublist_def by blast
qed

lemma request_completion_both_failed:
  "post_chat_completions e p = Raised first_error \<Longrightarrow> post_api_chat e p = Raised err \<Longrightarrow>
   request_completion e p = both_failed_text err first_error"
  by (simp add: request_completion_def)

text \<open>
  Claim C2, as stated, fails: with no user name in the session the synthesized text is
  answered and appended to the working transcript, but the store is left as it was.
\<close>

theorem chat_both_fail_not_persisted_counterexample:
  "post_chat_completions service_down (chat_payload service_down hola anonymous) = Raised (py ''timed out'') \<and>
   post_api_chat service_down (chat_payload service_down hola anonymous) = Raised (py ''refused'') \<and>
   fst (chat service_down hola anonymous) =
     (Json_message (both_failed_text (py ''refused'') (py ''timed out'')), 200) \<and>
   users_file (snd (chat service_down hola anonymous)) = users_file anonymous \<and>
   users_file anonymous = [admin, ana] \<and>
   persisted (snd (chat service_down hola anonymous)) = None"
proof -
  have a: "session_username (session anonymous) = None"
    by (simp add: anonymous_def)
  have c: "build_content hola \<noteq> []"
    by (simp add: build_content_hola py_def)
  have p: "post_chat_completions service_down (chat_payload service_down hola anonymous) = Raised (py ''timed out'')"
    "post_api_chat service_down (chat_payload service_down hola anonymous) = Raised (py ''refused'')"
    by (simp_all add: service_down_def)
  have r: "request_completion service_down (chat_payload service_down hola anonymous) =
             both_failed_text (py ''refused'') (py ''timed out'')"
    using p by (rule request_completion_both_failed)
  have f: "fst (chat service_down hola anonymous) =
     (Json_message (both_failed_text (py ''refused'') (py ''timed out'')), 200)"
    by (simp add: chat_anonymous [OF a c] r)
  have u: "users_file (snd (chat service_down hola anonymous)) = users_file anonymous"
    by (simp add: chat_anonymous [OF a c])
  have v: "users_file anonymous = [admin, ana]"
    by (simp add: anonymous_def)
  have n: "persisted (snd (chat service_down hola anonymous)) = None"
    using a by (simp add: chat_anonymous [OF a c] persisted_def require_user_def)
  from p f u v n show ?thesis by simp
qed

text \<open>
  Claim C2, amended.  For every chat request with content for which both the primary call
  and the legacy call raise, \<open>chat\<close> answers 200 with the synthesized text, which contains
  both error texts, and appends it to the working transcript as the assistant's turn.
  When the session names a stored user, the conversation the session points to then
  holds that transcript as the file gives it back (the transcript itself, unless a role
  or content in it has a high surrogate directly followed by a low surrogate), so the
  text is persisted as its last turn; with no user name in the session the store is
  unchanged.
\<close>

theorem chat_both_fail:
  assumes "build_content req \<noteq> []"
    and "post_chat_completions e (chat_payload e req st) = Raised first_error"
    and "post_api_chat e (chat_payload e req st) = Raised err"
  shows "fst (chat e req st) = (Json_message (both_failed_text err first_error), 200) \<and>
         sublist err (both_failed_text err first_error) \<and>
         sublist first_error (both_failed_text err first_error) \<and>
         conversation_history (snd (chat e req st)) =
           add_user_turn (conversation_history st) (build_content req)
           @ [Turn (py ''assistant'') (both_failed_text err first_error)] \<and>
         (\<forall>n u. session_username (session st) = Some n \<and> n \<noteq> [] \<and> get_user st n = Some u \<longrightarrow>
            persisted (snd (chat e req st)) =
              Some (map json_reload_turn
                      (add_user_turn (conversation_history st) (build_content req)
                       @ [Turn (py ''assistant'') (both_failed_text err first_error)]))) \<and>
         (session_username (session st) = None \<longrightarrow>
            users_file (snd (chat e req st)) = users_file st) \<and>
         ((\<forall>t \<in> set (add_user_turn (conversation_history st) (build_content req)
                          @ [Turn (py ''assistant'') (both_failed_text err first_error)]).
              \<not> has_surrogate_pair (role t) \<and> \<not> has_surrogate_pair (content t)) \<longrightarrow>
            map json_reload_turn
              (add_user_turn (conversation_history st) (build_content req)
                          @ [Turn (py ''assistant'') (both_failed_text err first_error)]) =
              add_user_turn (conversation_history st) (build_content req)
                          @ [Turn (py ''assistant'') (both_failed_text err first_error)])"
proof -
  have same: "((\<forall>t \<in> set (add_user_turn (conversation_history st) (build_content req)
                          @ [Turn (py ''assistant'') (both_failed_text err first_error)]).
              \<not> has_surrogate_pair (role t) \<and> \<not> has_surrogate_pair (content t)) \<longrightarrow>
            map json_reload_turn
              (add_user_turn (conversation_history st) (build_content req)
                          @ [Turn (py ''assistant'') (both_failed_text err first_error)]) =
              add_user_turn (conversation_history st) (build_content req)
                          @ [Turn (py ''assistant'') (both_failed_text err first_error)])"
    using json_reload_turns_id by blast
  have r: "request_completion e (chat_payload e req st) = both_failed_text err first_error"
    using assms(2,3) by (rule request_completion_both_failed)
  have h: "conversation_history (snd (chat e req st)) =
           add_user_turn (conversation_history st) (build_content req)
           @ [Turn (py ''assistant'') (both_failed_text err first_error)]"
    using chat_accepted(2) [OF assms(1), of e st] by (simp add: r)
  have p: "persisted (snd (chat e req st)) =
              Some (map json_reload_turn
                      (add_user_turn (conversation_history st) (build_content req)
                       @ [Turn (py ''assistant'') (both_failed_text err first_error)]))"
    if "session_username (session st) = Some n" "n \<noteq> []" "get_user st n = Some u" for n u
    using chat_user_persisted [OF that assms(1), of e] by (simp add: h)
  have a: "users_file (snd (chat e req st)) = users_file st"
    if "session_username (session st) = None"
    by (simp add: chat_anonymous [OF that assms(1)])
  have "fst (chat e req st) = (Json_message (both_failed_text err first_error), 200) \<and>
         sublist err (both_failed_text err first_error) \<and>
         sublist first_error (both_failed_text err first_error)"
    using chat_accepted(1) [OF assms(1), of e st]
    by (simp add: r sublist_both_failed_text)
  with h p a same show ?thesis by blast
qed

theorem chat_both_fail_witness:
  "build_content hola \<noteq> [] \<and>
   post_chat_completions service_down (chat_payload service_down hola logged_in) = Raised (py ''timed out'') \<and>
   post_api_chat service_down (chat_payload service_down hola logged_in) = Raised (py ''refused'') \<and>
   session_username (session logged_in) = Some (py ''ana'') \<and> py ''ana'' \<noteq> [] \<and>
   get_user logged_in (py ''ana'') = Some ana \<and>
   fst (chat service_down hola logged_in) =
     (Json_message (both_failed_text (py ''refused'') (py ''timed out'')), 200) \<and>
   persisted (snd (chat service_down hola logged_in)) =
     Some [Turn (py ''user'') (py ''otro''), Turn (py ''user'') (py ''hola''),
           Turn (py ''assistant'') (both_failed_text (py ''refused'') (py ''timed out''))]"
proof -
  have c: "build_content hola \<noteq> []"
    by (simp add: build_content_hola py_def)
  have p: "post_chat_completions service_down (chat_payload service_down hola logged_in) = Raised (py ''timed out'')"
    "post_api_chat service_down (chat_payload service_down hola logged_in) = Raised (py ''refused'')"
    by (simp_all add: service_down_def)
  have h: "conversation_history logged_in = [Turn (py ''user'') (py ''otro'')]"
    by (simp add: logged_in_def)
  have x: "json_reload_str (both_failed_text (py ''refused'') (py ''timed out'')) =
             both_failed_text (py ''refused'') (py ''timed out'')"
    by (rule json_reload_str_id, rule no_high_surrogate_no_pair)
      (auto simp: both_failed_text_def is_high_surrogate_def dest: py_small)
  show ?thesis
    using chat_both_fail [OF c p] logged_in_user c p
    by (simp add: h build_content_hola add_user_turn_def json_reload_turn_eq x)
qed

text \<open>
  Claim C4, as stated, fails: a request whose message is blank but which has an
  attachment is not answered with an error; the reference to the attachment is its
  content.
\<close>

theorem chat_blank_message_with_attachment_counterexample:
  "message only_attachment = Some (py ''  '') \<and> strip (py ''  '') = [] \<and>
   fst (chat service_up only_attachment anonymous) = (Json_message (py ''buenas''), 200)"
proof -
  have c: "build_content only_attachment \<noteq> []"
    by (simp add: build_content_empty only_attachment_def)
  have r: "request_completion service_up (chat_payload service_up only_attachment anonymous) = py ''buenas''"
    by (simp add: request_completion_def service_up_def)
  show ?thesis
    using chat_accepted(1) [OF c, of service_up anonymous]
    by (simp add: r) (simp add: only_attachment_def strip_def isspace_def py_def)
qed

text \<open>
  Claim C4, amended.  \<open>chat\<close> answers 400 with an error payload exactly when the content
  of the request is empty, that is when the stripped message is empty and there is no
  attachment; every other request is answered 200 with the assistant's reply.
\<close>

theorem chat_response:
  "fst (chat e req st) =
     (if strip (case message req of None \<Rightarrow> [] | Some m \<Rightarrow> m) = [] \<and> attachments req = []
      then (Json_error (py ''Message is empty''), 400)
      else (Json_message (request_completion e (chat_payload e req st)), 200))"
proof (cases "build_content req = []")
  case True
  then show ?thesis
    using build_content_empty [of req] by (simp add: chat_empty)
next
  case False
  then show ?thesis
    using build_content_empty [of req] chat_accepted(1) [OF False, of e st] by auto
qed

theorem chat_response_witness:
  "fst (chat service_up blank logged_in) = (Json_error (py ''Message is empty''), 400) \<and>
   fst (chat service_up hola logged_in) = (Json_message (py ''buenas''), 200)"
proof -
  have b: "strip (case message blank of None \<Rightarrow> [] | Some m \<Rightarrow> m) = [] \<and> attachments blank = []"
    by (simp add: blank_def strip_def isspace_def py_def)
  have c: "\<not> (strip (case message hola of None \<Rightarrow> [] | Some m \<Rightarrow> m) = [] \<and> attachments hola = [])"
    using build_content_empty [of hola] by (simp add: build_content_hola py_def)
  have r: "request_completion service_up (chat_payload service_up hola logged_in) = py ''buenas''"
    by (simp add: request_completion_def service_up_def)
  show ?thesis
    using chat_response [of service_up blank logged_in] chat_response [of service_up hola logged_in] b c
    by (simp add: r)
qed


section \<open>A sequence of chat requests\<close>

lemma chat_all_roles:
  assumes "\<forall>(e, req) \<in> set turns. build_content req \<noteq> []" "conversation_history st \<noteq> []"
  shows "map role (conversation_history (chat_all turns st)) =
           map role (conversation_history st)
           @ concat (replicate (length turns) [py ''user'', py ''assistant''])"
  using assms
proof (induction turns arbitrary: st)
  case Nil
  then show ?case by simp
next
  case (Cons t turns)
  obtain e req where t: "t = (e, req)" by (cases t)
  have c: "build_content req \<noteq> []" using Cons.prems(1) t by simp
  let ?st1 = "snd (chat e req st)"
  have h: "conversation_history ?st1 =
             conversation_history st
             @ [Turn (py ''user'') (build_content req),
                Turn (py ''assistant'') (request_completion e (chat_payload e req st))]"
    using chat_accepted(2) [OF c, of e st] Cons.prems(2) by (simp add: add_user_turn_def)
  then have "conversation_history ?st1 \<noteq> []" by simp
  moreover have "\<forall>(e, req) \<in> set turns. build_content req \<noteq> []"
    using Cons.prems(1) by simp
  ultimately have "map role (conversation_history (chat_all turns ?st1)) =
           map role (conversation_history ?st1)
           @ concat (replicate (length turns) [py ''user'', py ''assistant''])"
    by (rule Cons.IH [rotated])
  then show ?case by (simp add: t h)
qed

lemma chat_all_roles_from_empty:
  assumes "\<forall>(e, req) \<in> set turns. build_content req \<noteq> []" "conversation_history st = []"
    and "turns \<noteq> []"
  shows "map role (conversation_history (chat_all turns st)) =
           py ''system'' # concat (replicate (length turns) [py ''user'', py ''assistant''])"
proof -
  obtain e req rest where t: "turns = (e, req) # rest"
    using assms(3) by (cases turns) auto
  have c: "build_content req \<noteq> []" using assms(1) t by simp
  let ?st1 = "snd (chat e req st)"
  have h: "conversation_history ?st1 =
             [Turn (py ''system'') system_prompt, Turn (py ''user'') (build_content req),
              Turn (py ''assistant'') (request_completion e (chat_payload e req st))]"
    using chat_accepted(2) [OF c, of e st] assms(2) by (simp add: add_user_turn_def)
  have "map role (conversation_history (chat_all rest ?st1)) =
           map role (conversation_history ?st1)
           @ concat (replicate (length rest) [py ''user'', py ''assistant''])"
    using assms(1) t h by (intro chat_all_roles) simp_all
  then show ?thesis by (simp add: t h)
qed

lemma chat_all_persisted:
  assumes "session_username (session st) = Some n" "n \<noteq> []" "get_user st n = Some u"
    and "\<forall>(e, req) \<in> set turns. build_content req \<noteq> []" "turns \<noteq> []"
  shows "persisted (chat_all turns st) =
           Some (map json_reload_turn (conversation_history (chat_all turns st)))"
  using assms
proof (induction turns arbitrary: st u)
  case Nil
  then show ?case by simp
next
  case (Cons t turns)
  obtain e req where t: "t = (e, req)" by (cases t)
  have c: "build_content req \<noteq> []" using Cons.prems(4) t by simp
  let ?st1 = "snd (chat e req st)"
  note f = chat_user_facts [OF Cons.prems(1-3) c, of e]
  show ?case
  proof (cases "turns = []")
    case True
    then show ?thesis
      using chat_user_persisted [OF Cons.prems(1-3) c, of e] by (simp add: t)
  next
    case False
    have "persisted (chat_all turns ?st1) =
            Some (map json_reload_turn (conversation_history (chat_all turns ?st1)))"
      using f(1) Cons.prems(2) f(4) _ False
    proof (rule Cons.IH)
      show "\<forall>(e, req) \<in> set turns. build_content req \<noteq> []"
        using Cons.prems(4) by simp
    qed
    then show ?thesis by (simp add: t)
  qed
qed

text \<open>
  Claim C1.  A logged-in user whose record is in the store sends \<open>N\<close> accepted chat
  requests in a row, starting from an empty working transcript.  For \<open>N > 0\<close> the store
  then holds \<open>2N + 1\<close> messages for the conversation the session points to: they are the
  working transcript as the file gives it back, and their roles, like those of the
  working transcript, are one \<open>system\<close> followed by \<open>N\<close> pairs \<open>user\<close>, \<open>assistant\<close>.  For \<open>N = 0\<close> nothing is sent, and a conversation that starts with no
  stored message still has none.
\<close>

theorem chat_all_message_count:
  assumes "session_username (session st) = Some n" "n \<noteq> []" "get_user st n = Some u"
    and "conversation_history st = []" "turns = [] \<longrightarrow> persisted_count st = 0"
    and "\<forall>(e, req) \<in> set turns. build_content req \<noteq> []"
  shows "persisted_count (chat_all turns st) =
           (if length turns > 0 then 2 * length turns + 1 else 0) \<and>
         (turns \<noteq> [] \<longrightarrow>
            persisted (chat_all turns st) =
              Some (map json_reload_turn (conversation_history (chat_all turns st))) \<and>
            map role (map json_reload_turn (conversation_history (chat_all turns st))) =
              py ''system'' # concat (replicate (length turns) [py ''user'', py ''assistant'']) \<and>
            map role (conversation_history (chat_all turns st)) =
              py ''system'' # concat (replicate (length turns) [py ''user'', py ''assistant'']))"
proof (cases "turns = []")
  case True
  then show ?thesis using assms(5) by simp
next
  case False
  have p: "persisted (chat_all turns st) =
             Some (map json_reload_turn (conversation_history (chat_all turns st)))"
    using assms(1-3,6) False by (rule chat_all_persisted)
  have r: "map role (conversation_history (chat_all turns st)) =
              py ''system'' # concat (replicate (length turns) [py ''user'', py ''assistant''])"
    using assms(6,4) False by (rule chat_all_roles_from_empty)
  have "map role (map json_reload_turn (conversation_history (chat_all turns st))) =
          map json_reload_str (map role (conversation_history (chat_all turns st)))"
    by (simp add: json_reload_turn_eq comp_def)
  then have q: "map role (map json_reload_turn (conversation_history (chat_all turns st))) =
              py ''system'' # concat (replicate (length turns) [py ''user'', py ''assistant''])"
    by (simp only: r) (simp add: map_concat)
  have "length (map role (conversation_history (chat_all turns st))) = 2 * length turns + 1"
    by (simp only: r) (simp add: length_concat sum_list_replicate)
  then have "persisted_count (chat_all turns st) = 2 * length turns + 1"
    by (simp add: persisted_count_def p)
  with False p q r show ?thesis by simp
qed

theorem chat_all_message_count_witness:
  "session_username (session fresh_login) = Some (py ''ana'') \<and> py ''ana'' \<noteq> [] \<and>
   get_user fresh_login (py ''ana'') = Some ana \<and>
   conversation_history fresh_login = [] \<and> persisted_count fresh_login = 0 \<and>
   build_content hola \<noteq> [] \<and> build_content adios \<noteq> [] \<and>
   persisted_count (chat_all [(service_up, hola), (service_down, adios)] fresh_login) = 5 \<and>
   map role (conversation_history (chat_all [(service_up, hola), (service_down, adios)] fresh_login)) =
     [py ''system'', py ''user'', py ''assistant'', py ''user'', py ''assistant''] \<and>
   persisted_count (chat_all [] fresh_login) = 0"
proof -
  note a = fresh_login_user
  have h: "conversation_history fresh_login = []"
    by (simp add: fresh_login_def)
  have z: "persisted_count fresh_login = 0"
    by (simp add: persisted_count_def persisted_def require_user_Inr [OF a]) (simp add: fresh_login_def)
  have c: "build_content hola \<noteq> []" "build_content adios \<noteq> []"
    by (simp_all add: build_content_empty hola_def adios_def strip_def isspace_def py_def)
  have t: "\<forall>(e, req) \<in> set [(service_up, hola), (service_down, adios)]. build_content req \<noteq> []"
    using c by simp
  have t0: "\<forall>(e, req) \<in> set ([] :: (env \<times> chat_request) list). build_content req \<noteq> []"
    by simp
  have z2: "[(service_up, hola), (service_down, adios)] = [] \<longrightarrow> persisted_count fresh_login = 0"
    by simp
  have z0: "([] :: (env \<times> chat_request) list) = [] \<longrightarrow> persisted_count fresh_login = 0"
    using z by simp
  have n: "concat (replicate (Suc (Suc 0)) [py ''user'', py ''assistant'']) =
        [py ''user'', py ''assistant'', py ''user'', py ''assistant'']"
    by simp
  show ?thesis
    using chat_all_message_count [OF a h z2 t] chat_all_message_count [OF a h z0 t0] a h z c
    by (simp add: n del: chat_all.simps)
qed


section \<open>Listing conversations\<close>

lemma conversation_title_find:
  "conversation_title msgs =
     (case find (\<lambda>m. role m = py ''user'') msgs of
        None \<Rightarrow> default_title
      | Some m \<Rightarrow> take 50 (first_line (content m)))"
  by (induction msgs) simp_all

lemma default_title_not_empty: "default_title \<noteq> []"
  by (simp add: default_title_def py_def)

lemma summary_find:
  "summary (idx, convo) =
     (idx, case find (\<lambda>m. role m = py ''user'') (messages convo) of
             None \<Rightarrow> default_title
           | Some m \<Rightarrow> if take 50 (first_line (content m)) \<noteq> []
                       then take 50 (first_line (content m)) else position_title idx)"
  by (simp add: summary_def conversation_title_find default_title_not_empty Let_def
      split: option.splits)

lemma api_conversations_user:
  "session_username (session st) = Some n \<Longrightarrow> n \<noteq> [] \<Longrightarrow> get_user st n = Some u \<Longrightarrow>
   api_conversations st = (Json_conversations (map summary (enumerate 0 (conversations u))), 200)"
  by (simp add: api_conversations_def require_user_def)

lemma json_loads_str_hello_world [simp]: "json_loads_str hello_world = hello_world"
  by (rule json_loads_str_plain)
    (auto simp: hello_world_def is_high_surrogate_def dest: py_small)

lemma json_load_listing_users [simp]:
  "json_load_user eva = eva" "json_load_user greeter = greeter"
  by (simp_all add: json_load_user_def json_load_conversation_def json_load_turn_def
      eva_def greeter_def is_high_surrogate_def)

lemma untitled_user:
  "session_username (session untitled) = Some (py ''eva'')" "py ''eva'' \<noteq> []"
  "get_user untitled (py ''eva'') = Some eva"
proof -
  show "session_username (session untitled) = Some (py ''eva'')"
    by (simp add: untitled_def)
  show "py ''eva'' \<noteq> []"
    by (simp add: py_def)
  have "load_users untitled = [eva]"
    by (simp add: load_users_def untitled_def)
  then show "get_user untitled (py ''eva'') = Some eva"
    by (simp add: get_user_def) (simp add: eva_def)
qed

lemma first_line_hello_world: "take 50 (first_line hello_world) = py ''Hello''"
  by (simp add: hello_world_def first_line_def py_def)

text \<open>
  Claim C6, as stated, fails: when the first line of the first user message is empty,
  the title is not that (empty) line but the position-based title.
\<close>

theorem list_title_empty_first_line_counterexample:
  "find (\<lambda>m. role m = py ''user'') (messages (conversations eva ! 0)) =
     Some (Turn (py ''user'') ([newline] @ py ''hola'')) \<and>
   take 50 (first_line ([newline] @ py ''hola'')) = [] \<and>
   api_conversations untitled =
     (Json_conversations
        [(0, py ''Conversaci'' @ [0xF3] @ py ''n 1''),
         (1, py ''Conversaci'' @ [0xF3] @ py ''n 2''),
         (2, py ''Nueva conversaci'' @ [0xF3] @ py ''n'')], 200)"
proof -
  have "api_conversations untitled =
          (Json_conversations (map summary (enumerate 0 (conversations eva))), 200)"
    using untitled_user by (rule api_conversations_user)
  moreover have "map summary (enumerate 0 (conversations eva)) =
        [(0, py ''Conversaci'' @ [0xF3] @ py ''n 1''),
         (1, py ''Conversaci'' @ [0xF3] @ py ''n 2''),
         (2, py ''Nueva conversaci'' @ [0xF3] @ py ''n'')]"
    by (simp add: eva_def enumerate_eq_zip upt_rec summary_find first_line_def position_title_def
        default_title_def str_nat.simps py_def)
  moreover have "find (\<lambda>m. role m = py ''user'') (messages (conversations eva ! 0)) =
     Some (Turn (py ''user'') ([newline] @ py ''hola''))"
    by (simp add: eva_def)
  moreover have "take 50 (first_line ([newline] @ py ''hola'')) = []"
    by (simp add: first_line_def)
  ultimately show ?thesis by simp
qed

text \<open>
  Claim C6, amended.  For a session whose user is in the store, \<open>api_conversations\<close>
  answers with one summary per stored conversation, in storage order, the \<open>i\<close>-th with
  index \<open>i\<close>.  Its title is the first line of the first message with role \<open>user\<close>, cut to
  at most 50 characters, when that text is not empty, and the position-based title when
  it is empty; it is the default title when the conversation has no user message.  A
  store whose only conversation is the single user message \<open>Hello\nworld\<close> gives the title
  \<open>Hello\<close>.
\<close>

theorem list_conversations:
  assumes "session_username (session st) = Some n" "n \<noteq> []" "get_user st n = Some u"
  shows "api_conversations st = (Json_conversations (map summary (enumerate 0 (conversations u))), 200) \<and>
         length (map summary (enumerate 0 (conversations u))) = length (conversations u) \<and>
         map fst (map summary (enumerate 0 (conversations u))) = [0..<length (conversations u)] \<and>
         (\<forall>i < length (conversations u).
            map summary (enumerate 0 (conversations u)) ! i =
              (i, case find (\<lambda>m. role m = py ''user'') (messages (conversations u ! i)) of
                    None \<Rightarrow> default_title
                  | Some m \<Rightarrow> if take 50 (first_line (content m)) \<noteq> []
                              then take 50 (first_line (content m)) else position_title i)) \<and>
         (conversations u = [\<lparr>messages = [Turn (py ''user'') hello_world]\<rparr>] \<longrightarrow>
            api_conversations st = (Json_conversations [(0, py ''Hello'')], 200))"
proof -
  let ?s = "map summary (enumerate 0 (conversations u))"
  have r: "api_conversations st = (Json_conversations ?s, 200)"
    using assms by (rule api_conversations_user)
  have i: "map fst ?s = [0..<length (conversations u)]"
    by (simp add: enumerate_eq_zip summary_def Let_def split_def comp_def)
  have t: "?s ! i =
              (i, case find (\<lambda>m. role m = py ''user'') (messages (conversations u ! i)) of
                    None \<Rightarrow> default_title
                  | Some m \<Rightarrow> if take 50 (first_line (content m)) \<noteq> []
                              then take 50 (first_line (content m)) else position_title i)"
    if "i < length (conversations u)" for i
    using that by (simp add: nth_enumerate_eq summary_find)
  have h: "api_conversations st = (Json_conversations [(0, py ''Hello'')], 200)"
    if "conversations u = [\<lparr>messages = [Turn (py ''user'') hello_world]\<rparr>]"
    using that by (simp add: r enumerate_eq_zip summary_find first_line_hello_world py_def)
  show ?thesis
    using r i t h by simp
qed

theorem list_conversations_witness:
  "session_username (session greeting) = Some (py ''bob'') \<and> py ''bob'' \<noteq> [] \<and>
   get_user greeting (py ''bob'') = Some greeter \<and>
   conversations greeter = [\<lparr>messages = [Turn (py ''user'') (py ''Hello'' @ [newline] @ py ''world'')]\<rparr>] \<and>
   api_conversations greeting = (Json_conversations [(0, py ''Hello'')], 200)"
proof -
  have "load_users greeting = [greeter]"
    by (simp add: load_users_def greeting_def)
  then have "get_user greeting (py ''bob'') = Some greeter"
    by (simp add: get_user_def) (simp add: greeter_def)
  then have a: "session_username (session greeting) = Some (py ''bob'')" "py ''bob'' \<noteq> []"
    "get_user greeting (py ''bob'') = Some greeter"
    by (simp_all add: greeting_def py_def)
  have c: "conversations greeter = [\<lparr>messages = [Turn (py ''user'') hello_world]\<rparr>]"
    by (simp add: greeter_def)
  from list_conversations [OF a]
  have "conversations greeter = [\<lparr>messages = [Turn (py ''user'') hello_world]\<rparr>] \<longrightarrow>
          api_conversations greeting = (Json_conversations [(0, py ''Hello'')], 200)"
    by (elim conjE)
  with c have "api_conversations greeting = (Json_conversations [(0, py ''Hello'')], 200)"
    by blast
  then show ?thesis
    using a c by (simp add: hello_world_def)
qed

text \<open>
  Claim C10.  For a session whose user is in the store, a conversation at index \<open>i\<close>
  whose first message with role \<open>user\<close> has an empty first line is listed with the title
  \<open>Conversacion\<close> (with an accented o) followed by a space and the number \<open>i + 1\<close>,
  which is not the default title of a conversation without user message.
\<close>

theorem list_empty_first_line_position_title:
  assumes "session_username (session st) = Some n" "n \<noteq> []" "get_user st n = Some u"
    and "i < length (conversations u)"
    and "find (\<lambda>m. role m = py ''user'') (messages (conversations u ! i)) = Some m"
    and "first_line (content m) = []"
  shows "api_conversations st = (Json_conversations (map summary (enumerate 0 (conversations u))), 200) \<and>
         map summary (enumerate 0 (conversations u)) ! i =
           (i, py ''Conversaci'' @ [0xF3] @ py ''n '' @ str_nat (i + 1)) \<and>
         py ''Conversaci'' @ [0xF3] @ py ''n '' @ str_nat (i + 1) \<noteq> default_title"
proof -
  have "api_conversations st = (Json_conversations (map summary (enumerate 0 (conversations u))), 200)"
    using assms(1-3) by (rule api_conversations_user)
  moreover have "map summary (enumerate 0 (conversations u)) ! i = (i, position_title i)"
    using assms(4-6) by (simp add: nth_enumerate_eq summary_find)
  moreover have "py ''Conversaci'' @ [0xF3] @ py ''n '' @ str_nat (i + 1) \<noteq> default_title"
    by (simp add: default_title_def py_def)
  ultimately show ?thesis
    by (simp add: position_title_def)
qed

theorem list_empty_first_line_position_title_witness:
  "session_username (session untitled) = Some (py ''eva'') \<and> py ''eva'' \<noteq> [] \<and>
   get_user untitled (py ''eva'') = Some eva \<and> (1::nat) < length (conversations eva) \<and>
   find (\<lambda>m. role m = py ''user'') (messages (conversations eva ! 1)) = Some (Turn (py ''user'') []) \<and>
   first_line (content (Turn (py ''user'') [])) = [] \<and>
   map summary (enumerate 0 (conversations eva)) ! 1 = (1, py ''Conversaci'' @ [0xF3] @ py ''n 2'') \<and>
   py ''Conversaci'' @ [0xF3] @ py ''n 2'' \<noteq> default_title"
proof -
  have l: "(1::nat) < length (conversations eva)"
    by (simp add: eva_def)
  have f: "find (\<lambda>m. role m = py ''user'') (messages (conversations eva ! 1)) = Some (Turn (py ''user'') [])"
    by (simp add: eva_def py_def)
  have e: "first_line (content (Turn (py ''user'') [])) = []"
    by (simp add: first_line_def)
  have s: "str_nat (1 + 1) = py ''2''"
    by (simp add: str_nat.simps py_def)
  have "map summary (enumerate 0 (conversations eva)) ! 1 =
           (1, py ''Conversaci'' @ [0xF3] @ py ''n '' @ py ''2'') \<and>
         py ''Conversaci'' @ [0xF3] @ py ''n '' @ py ''2'' \<noteq> default_title"
    using list_empty_first_line_position_title [OF untitled_user l f e] by (simp only: s) simp
  then show ?thesis
    using untitled_user l f e by (simp add: py_def)
qed

end
